theory Spec2Isabelle
  imports Main "HOL-Library.AList" "HOL-Library.Sublist"
begin

section \<open>The multi-provider ETF data aggregation layer\<close>

text \<open>
  A shallow embedding of \<^verbatim>\<open>src/lib/api/provider-factory.ts\<close>,
  \<^verbatim>\<open>src/lib/api/base-provider.ts\<close> and the five provider classes.

  Conventions.
  \<^item> A JavaScript \<^verbatim>\<open>Map\<close> is an association list in insertion order: \<^verbatim>\<open>get\<close> is
    \<open>map_of\<close>, \<^verbatim>\<open>set\<close> is \<open>AList.update\<close> (an existing key keeps its place, a new key
    is appended), \<^verbatim>\<open>has\<close> is \<open>map_of m k \<noteq> None\<close>.
  \<^item> An \<^verbatim>\<open>async\<close> method that touches the outside world (network, clock) is a function
    from a world state \<open>'w\<close> to an outcome and the next world state. The outcome is either
    a returned \<^verbatim>\<open>ProviderResponse\<close> or a thrown value; a thrown value is kept as the
    string that \<^verbatim>\<open>`${error}`\<close> gives for it.
  \<^item> \<^verbatim>\<open>Date.now()\<close> is \<open>clock w\<close> for a function \<open>clock\<close> reading the world.
  \<^item> Strings are \<open>string\<close>; only code units below 256 are represented.
\<close>

subsection \<open>Domain model (\<^verbatim>\<open>src/lib/types/etf.ts\<close>)\<close>

text \<open>The \<^verbatim>\<open>data\<close> field of a response: \<^verbatim>\<open>null as T\<close>, \<^verbatim>\<open>{} as T\<close> or a payload.\<close>

datatype 'a DataValue = JSNull | JSEmptyObject | Payload 'a

record 'a ProviderResponse =
  data :: "'a DataValue"
  provider :: string
  timestamp :: int
  success :: bool
  error :: "string option"

record RateLimit =
  requestsPerMinute :: nat
  requestsPerDay :: nat

record ProviderConfig =
  cfgName :: string
  apiKey :: string
  baseUrl :: string
  rateLimit :: RateLimit
  endpoints :: "(string \<times> string) list"

datatype 'a outcome = Returned "'a ProviderResponse" | Threw string

type_synonym ('a, 'w) call = "'w \<Rightarrow> 'a outcome \<times> 'w"

subsection \<open>Provider interface and base class (\<^verbatim>\<open>base-provider.ts\<close>)\<close>

text \<open>
  \<^verbatim>\<open>IETFDataProvider\<close>: an object with a name, a config and eight operations. The
  config is optional in the model because \<^verbatim>\<open>healthCheck\<close> tests it for truthiness.
  Dates are milliseconds.
\<close>

record ('a, 'w) IETFDataProvider =
  name :: string
  config :: "ProviderConfig option"
  getQuote :: "string \<Rightarrow> ('a, 'w) call"
  getMetadata :: "string \<Rightarrow> ('a, 'w) call"
  getHoldings :: "string \<Rightarrow> ('a, 'w) call"
  getSectorAllocation :: "string \<Rightarrow> ('a, 'w) call"
  getCountryAllocation :: "string \<Rightarrow> ('a, 'w) call"
  getPerformance :: "string \<Rightarrow> string list \<Rightarrow> ('a, 'w) call"
  getHistoricalData :: "string \<Rightarrow> string \<Rightarrow> int \<Rightarrow> int \<Rightarrow> ('a, 'w) call"
  search :: "string \<Rightarrow> int \<Rightarrow> ('a, 'w) call"

definition createSuccessResponse :: "('w \<Rightarrow> int) \<Rightarrow> string \<Rightarrow> 'a \<Rightarrow> 'w \<Rightarrow> 'a ProviderResponse" where
  "createSuccessResponse clock nm d w =
     \<lparr>data = Payload d, provider = nm, timestamp = clock w, success = True, error = None\<rparr>"

definition createErrorResponse :: "('w \<Rightarrow> int) \<Rightarrow> string \<Rightarrow> string \<Rightarrow> 'w \<Rightarrow> 'a ProviderResponse" where
  "createErrorResponse clock nm e w =
     \<lparr>data = JSEmptyObject, provider = nm, timestamp = clock w, success = False, error = Some e\<rparr>"

text \<open>The characters \<^verbatim>\<open>String.prototype.trim\<close> strips, among the code units below 256.\<close>

definition isWhiteSpace :: "char \<Rightarrow> bool" where
  "isWhiteSpace c = (of_char c \<in> {9, 10, 11, 12, 13, 32, 160 :: nat})"

definition trim :: "string \<Rightarrow> string" where
  "trim s = rev (dropWhile isWhiteSpace (rev (dropWhile isWhiteSpace s)))"

text \<open>
  \<^verbatim>\<open>validateSymbol\<close> returns nothing or throws \<^verbatim>\<open>new Error('Symbol is required')\<close>;
  \<open>Some e\<close> is the throw, with \<open>e\<close> the string form of the error.
\<close>

definition validateSymbol :: "string \<Rightarrow> string option" where
  "validateSymbol symbol =
     (if symbol = [] \<or> length (trim symbol) = 0 then Some ''Error: Symbol is required'' else None)"

text \<open>
  The shape shared by every network-backed provider method that takes a symbol:
  \<^verbatim>\<open>try { this.validateSymbol(symbol); <body> } catch (error) { return
  this.createErrorResponse(`<label>${error}`) }\<close>.
  The body (URL building, \<^verbatim>\<open>makeRequest\<close>, conversion of the wire payload) is a
  parameter: it returns a response or throws, and may change the world.
\<close>

definition trySymbol ::
  "('w \<Rightarrow> int) \<Rightarrow> string \<Rightarrow> string \<Rightarrow> string \<Rightarrow> ('a, 'w) call \<Rightarrow> ('a, 'w) call" where
  "trySymbol clock nm label symbol body w =
     (case validateSymbol symbol of
        Some e \<Rightarrow> (Returned (createErrorResponse clock nm (label @ e) w), w)
      | None \<Rightarrow>
          (case body w of
             (Returned r, w') \<Rightarrow> (Returned r, w')
           | (Threw e, w') \<Rightarrow> (Returned (createErrorResponse clock nm (label @ e) w'), w')))"

text \<open>
  The shape of every provider's \<^verbatim>\<open>search\<close>:
  \<^verbatim>\<open>try { if (!query || query.trim().length === 0) return
  this.createErrorResponse('Search query is required'); <body> } catch ...\<close>.
\<close>

definition trySearch ::
  "('w \<Rightarrow> int) \<Rightarrow> string \<Rightarrow> string \<Rightarrow> ('a, 'w) call \<Rightarrow> ('a, 'w) call" where
  "trySearch clock nm query body w =
     (if query = [] \<or> length (trim query) = 0
      then (Returned (createErrorResponse clock nm ''Search query is required'' w), w)
      else
        (case body w of
           (Returned r, w') \<Rightarrow> (Returned r, w')
         | (Threw e, w') \<Rightarrow>
             (Returned (createErrorResponse clock nm (''Failed to search: '' @ e) w'), w')))"

text \<open>A method that only returns \<^verbatim>\<open>this.createErrorResponse(msg)\<close>.\<close>

definition unsupported :: "('w \<Rightarrow> int) \<Rightarrow> string \<Rightarrow> string \<Rightarrow> ('a, 'w) call" where
  "unsupported clock nm msg w = (Returned (createErrorResponse clock nm msg w), w)"

subsection \<open>Registry keys, requests and capabilities (\<^verbatim>\<open>provider-factory.ts\<close>)\<close>

datatype ProviderName = Polygon | Finnhub | EODHD | FMP | AlphaVantage

text \<open>The string literal each \<^verbatim>\<open>ProviderName\<close> is in the source.\<close>

fun providerNameString :: "ProviderName \<Rightarrow> string" where
  "providerNameString Polygon = ''polygon''"
| "providerNameString Finnhub = ''finnhub''"
| "providerNameString EODHD = ''eodhd''"
| "providerNameString FMP = ''fmp''"
| "providerNameString AlphaVantage = ''alpha-vantage''"

record ProviderCredentials =
  polygon :: "string option"
  finnhub :: "string option"
  eodhd :: "string option"
  fmp :: "string option"
  alphaVantage :: "string option"

record ProviderCapabilities =
  quote :: bool
  metadata :: bool
  holdings :: bool
  sectorAllocation :: bool
  countryAllocation :: bool
  performance :: bool
  historicalData :: bool
  search_cap :: bool

text \<open>\<^verbatim>\<open>keyof ProviderCapabilities\<close> and the indexing \<^verbatim>\<open>capabilities[capability]\<close>.\<close>

datatype CapabilityKey =
  KeyQuote | KeyMetadata | KeyHoldings | KeySectorAllocation | KeyCountryAllocation
  | KeyPerformance | KeyHistoricalData | KeySearch

fun capabilityAt :: "ProviderCapabilities \<Rightarrow> CapabilityKey \<Rightarrow> bool" where
  "capabilityAt c KeyQuote = quote c"
| "capabilityAt c KeyMetadata = metadata c"
| "capabilityAt c KeyHoldings = holdings c"
| "capabilityAt c KeySectorAllocation = sectorAllocation c"
| "capabilityAt c KeyCountryAllocation = countryAllocation c"
| "capabilityAt c KeyPerformance = performance c"
| "capabilityAt c KeyHistoricalData = historicalData c"
| "capabilityAt c KeySearch = search_cap c"

text \<open>The eight operations with their arguments, to speak of "every operation".\<close>

datatype request =
  GetQuote string
  | GetMetadata string
  | GetHoldings string
  | GetSectorAllocation string
  | GetCountryAllocation string
  | GetPerformance string "string list"
  | GetHistoricalData string string int int
  | Search string "int option"

text \<open>
  The part of a provider method that follows input validation: the network round trip
  and the conversion of the reply. It is an input of the model.
\<close>

type_synonym ('a, 'w) remote = "ProviderName \<Rightarrow> request \<Rightarrow> ('a, 'w) call"

subsection \<open>The five provider classes\<close>

text \<open>
  Each class fixes its name and config in the constructor. A method is either the guarded
  network shape above or a bare \<^verbatim>\<open>createErrorResponse\<close>; which one, and with which
  message, is read off the class.
\<close>

definition PolygonProvider ::
  "('w \<Rightarrow> int) \<Rightarrow> ('a, 'w) remote \<Rightarrow> string \<Rightarrow> ('a, 'w) IETFDataProvider" where
  "PolygonProvider clock remote key =
    \<lparr>name = ''Polygon.io'',
     config =
       Some \<lparr>cfgName = ''Polygon.io'', apiKey = key, baseUrl = ''https://api.polygon.io'',
         rateLimit = \<lparr>requestsPerMinute = 5, requestsPerDay = 1000\<rparr>,
         endpoints = [(''quote'', ''/v2/aggs/ticker/{symbol}/prev''), (''metadata'', ''/v3/reference/tickers/{symbol}''), (''holdings'', ''/v1/reference/tickers/{symbol}/holdings''), (''historical'', ''/v2/aggs/ticker/{symbol}/range/{multiplier}/{timespan}/{from}/{to}''), (''search'', ''/v3/reference/tickers'')]\<rparr>,
     getQuote = (\<lambda>symbol. trySymbol clock ''Polygon.io'' ''Failed to fetch quote: '' symbol (remote Polygon (GetQuote symbol))),
     getMetadata = (\<lambda>symbol. trySymbol clock ''Polygon.io'' ''Failed to fetch metadata: '' symbol (remote Polygon (GetMetadata symbol))),
     getHoldings = (\<lambda>symbol. unsupported clock ''Polygon.io'' ''Holdings data not available in Polygon.io''),
     getSectorAllocation = (\<lambda>symbol. unsupported clock ''Polygon.io'' ''Sector allocation data not available in Polygon.io''),
     getCountryAllocation = (\<lambda>symbol. unsupported clock ''Polygon.io'' ''Country allocation data not available in Polygon.io''),
     getPerformance = (\<lambda>symbol periods. unsupported clock ''Polygon.io''
        ''Performance data calculation not implemented for Polygon.io''),
     getHistoricalData = (\<lambda>symbol interval from to.
        trySymbol clock ''Polygon.io'' ''Failed to fetch historical data: '' symbol
          (remote Polygon (GetHistoricalData symbol interval from to))),
     search = (\<lambda>query limit. trySearch clock ''Polygon.io'' query (remote Polygon (Search query (Some limit))))\<rparr>"

definition FinnhubProvider ::
  "('w \<Rightarrow> int) \<Rightarrow> ('a, 'w) remote \<Rightarrow> string \<Rightarrow> ('a, 'w) IETFDataProvider" where
  "FinnhubProvider clock remote key =
    \<lparr>name = ''Finnhub'',
     config =
       Some \<lparr>cfgName = ''Finnhub'', apiKey = key, baseUrl = ''https://finnhub.io/api/v1'',
         rateLimit = \<lparr>requestsPerMinute = 60, requestsPerDay = 1000\<rparr>,
         endpoints = [(''quote'', ''/quote''), (''metadata'', ''/stock/profile2''), (''holdings'', ''/etf/holdings''), (''historical'', ''/stock/candle''), (''search'', ''/search''), (''etfProfile'', ''/etf/profile''), (''etfSector'', ''/etf/sector''), (''etfCountry'', ''/etf/country'')]\<rparr>,
     getQuote = (\<lambda>symbol. trySymbol clock ''Finnhub'' ''Failed to fetch quote: '' symbol (remote Finnhub (GetQuote symbol))),
     getMetadata = (\<lambda>symbol. trySymbol clock ''Finnhub'' ''Failed to fetch metadata: '' symbol (remote Finnhub (GetMetadata symbol))),
     getHoldings = (\<lambda>symbol. trySymbol clock ''Finnhub'' ''Failed to fetch holdings: '' symbol (remote Finnhub (GetHoldings symbol))),
     getSectorAllocation = (\<lambda>symbol. trySymbol clock ''Finnhub'' ''Failed to fetch sector allocation: '' symbol (remote Finnhub (GetSectorAllocation symbol))),
     getCountryAllocation = (\<lambda>symbol. trySymbol clock ''Finnhub'' ''Failed to fetch country allocation: '' symbol (remote Finnhub (GetCountryAllocation symbol))),
     getPerformance = (\<lambda>symbol periods. unsupported clock ''Finnhub''
        ''Performance data calculation not implemented for Finnhub''),
     getHistoricalData = (\<lambda>symbol interval from to.
        trySymbol clock ''Finnhub'' ''Failed to fetch historical data: '' symbol
          (remote Finnhub (GetHistoricalData symbol interval from to))),
     search = (\<lambda>query limit. trySearch clock ''Finnhub'' query (remote Finnhub (Search query (Some limit))))\<rparr>"

definition EODHDProvider ::
  "('w \<Rightarrow> int) \<Rightarrow> ('a, 'w) remote \<Rightarrow> string \<Rightarrow> ('a, 'w) IETFDataProvider" where
  "EODHDProvider clock remote key =
    \<lparr>name = ''EODHD'',
     config =
       Some \<lparr>cfgName = ''EODHD'', apiKey = key, baseUrl = ''https://eodhd.com/api'',
         rateLimit = \<lparr>requestsPerMinute = 20, requestsPerDay = 1000\<rparr>,
         endpoints = [(''quote'', ''/real-time/{symbol}''), (''metadata'', ''/fundamentals/{symbol}''), (''holdings'', ''/fundamentals/{symbol}''), (''historical'', ''/eod/{symbol}''), (''search'', ''/search/{query}''), (''fundamentals'', ''/fundamentals/{symbol}'')]\<rparr>,
     getQuote = (\<lambda>symbol. trySymbol clock ''EODHD'' ''Failed to fetch quote: '' symbol (remote EODHD (GetQuote symbol))),
     getMetadata = (\<lambda>symbol. trySymbol clock ''EODHD'' ''Failed to fetch metadata: '' symbol (remote EODHD (GetMetadata symbol))),
     getHoldings = (\<lambda>symbol. trySymbol clock ''EODHD'' ''Failed to fetch holdings: '' symbol (remote EODHD (GetHoldings symbol))),
     getSectorAllocation = (\<lambda>symbol. trySymbol clock ''EODHD'' ''Failed to fetch sector allocation: '' symbol (remote EODHD (GetSectorAllocation symbol))),
     getCountryAllocation = (\<lambda>symbol. trySymbol clock ''EODHD'' ''Failed to fetch country allocation: '' symbol (remote EODHD (GetCountryAllocation symbol))),
     getPerformance = (\<lambda>symbol periods. unsupported clock ''EODHD''
        ''Performance data calculation not implemented for EODHD''),
     getHistoricalData = (\<lambda>symbol interval from to.
        trySymbol clock ''EODHD'' ''Failed to fetch historical data: '' symbol
          (remote EODHD (GetHistoricalData symbol interval from to))),
     search = (\<lambda>query limit. trySearch clock ''EODHD'' query (remote EODHD (Search query (Some limit))))\<rparr>"

definition FMPProvider ::
  "('w \<Rightarrow> int) \<Rightarrow> ('a, 'w) remote \<Rightarrow> string \<Rightarrow> ('a, 'w) IETFDataProvider" where
  "FMPProvider clock remote key =
    \<lparr>name = ''Financial Modeling Prep'',
     config =
       Some \<lparr>cfgName = ''Financial Modeling Prep'', apiKey = key, baseUrl = ''https://financialmodelingprep.com/api/v3'',
         rateLimit = \<lparr>requestsPerMinute = 250, requestsPerDay = 250\<rparr>,
         endpoints = [(''quote'', ''/quote/{symbol}''), (''metadata'', ''/profile/{symbol}''), (''holdings'', ''/etf-holder/{symbol}''), (''historical'', ''/historical-price-full/{symbol}''), (''search'', ''/search''), (''etfSector'', ''/etf-sector-weightings/{symbol}''), (''etfCountry'', ''/etf-country-weightings/{symbol}'')]\<rparr>,
     getQuote = (\<lambda>symbol. trySymbol clock ''Financial Modeling Prep'' ''Failed to fetch quote: '' symbol (remote FMP (GetQuote symbol))),
     getMetadata = (\<lambda>symbol. trySymbol clock ''Financial Modeling Prep'' ''Failed to fetch metadata: '' symbol (remote FMP (GetMetadata symbol))),
     getHoldings = (\<lambda>symbol. trySymbol clock ''Financial Modeling Prep'' ''Failed to fetch holdings: '' symbol (remote FMP (GetHoldings symbol))),
     getSectorAllocation = (\<lambda>symbol. trySymbol clock ''Financial Modeling Prep'' ''Failed to fetch sector allocation: '' symbol (remote FMP (GetSectorAllocation symbol))),
     getCountryAllocation = (\<lambda>symbol. trySymbol clock ''Financial Modeling Prep'' ''Failed to fetch country allocation: '' symbol (remote FMP (GetCountryAllocation symbol))),
     getPerformance = (\<lambda>symbol periods. unsupported clock ''Financial Modeling Prep''
        ''Performance data calculation not implemented for FMP''),
     getHistoricalData = (\<lambda>symbol interval from to.
        trySymbol clock ''Financial Modeling Prep'' ''Failed to fetch historical data: '' symbol
          (remote FMP (GetHistoricalData symbol interval from to))),
     search = (\<lambda>query limit. trySearch clock ''Financial Modeling Prep'' query (remote FMP (Search query (Some limit))))\<rparr>"

definition AlphaVantageProvider ::
  "('w \<Rightarrow> int) \<Rightarrow> ('a, 'w) remote \<Rightarrow> string \<Rightarrow> ('a, 'w) IETFDataProvider" where
  "AlphaVantageProvider clock remote key =
    \<lparr>name = ''Alpha Vantage'',
     config =
       Some \<lparr>cfgName = ''Alpha Vantage'', apiKey = key, baseUrl = ''https://www.alphavantage.co/query'',
         rateLimit = \<lparr>requestsPerMinute = 5, requestsPerDay = 500\<rparr>,
         endpoints = [(''quote'', ''?function=GLOBAL_QUOTE''), (''metadata'', ''?function=OVERVIEW''), (''holdings'', ''''), (''historical'', ''?function=TIME_SERIES_DAILY''), (''search'', ''?function=SYMBOL_SEARCH'')]\<rparr>,
     getQuote = (\<lambda>symbol. trySymbol clock ''Alpha Vantage'' ''Failed to fetch quote: '' symbol (remote AlphaVantage (GetQuote symbol))),
     getMetadata = (\<lambda>symbol. trySymbol clock ''Alpha Vantage'' ''Failed to fetch metadata: '' symbol (remote AlphaVantage (GetMetadata symbol))),
     getHoldings = (\<lambda>symbol. unsupported clock ''Alpha Vantage'' ''Holdings data not available in Alpha Vantage''),
     getSectorAllocation = (\<lambda>symbol. unsupported clock ''Alpha Vantage'' ''Sector allocation data not available in Alpha Vantage''),
     getCountryAllocation = (\<lambda>symbol. unsupported clock ''Alpha Vantage'' ''Country allocation data not available in Alpha Vantage''),
     getPerformance = (\<lambda>symbol periods. unsupported clock ''Alpha Vantage''
        ''Performance data calculation not implemented for Alpha Vantage''),
     getHistoricalData = (\<lambda>symbol interval from to.
        trySymbol clock ''Alpha Vantage'' ''Failed to fetch historical data: '' symbol
          (remote AlphaVantage (GetHistoricalData symbol interval from to))),
     search = (\<lambda>query limit. trySearch clock ''Alpha Vantage'' query (remote AlphaVantage (Search query (Some limit))))\<rparr>"


subsection \<open>The factory (aggregator)\<close>

record ('a, 'w) ETFProviderFactory =
  providers :: "(ProviderName \<times> ('a, 'w) IETFDataProvider) list"
  providerPriority :: "ProviderName list"
  healthStatus :: "(ProviderName \<times> bool) list"

text \<open>\<^verbatim>\<open>if (credentials.x)\<close>: a key counts when it is present and not the empty string.\<close>

definition truthyKey :: "string option \<Rightarrow> bool" where
  "truthyKey k = (case k of None \<Rightarrow> False | Some s \<Rightarrow> s \<noteq> [])"

text \<open>The two statements in each branch of \<^verbatim>\<open>initializeProviders\<close>.\<close>

definition register ::
  "ProviderName \<Rightarrow> ('a, 'w) IETFDataProvider \<Rightarrow> ('a, 'w) ETFProviderFactory
     \<Rightarrow> ('a, 'w) ETFProviderFactory" where
  "register nm p f =
     f\<lparr>providers := AList.update nm p (providers f),
       healthStatus := AList.update nm True (healthStatus f)\<rparr>"

definition initializeProviders ::
  "('w \<Rightarrow> int) \<Rightarrow> ('a, 'w) remote \<Rightarrow> ProviderCredentials \<Rightarrow> ('a, 'w) ETFProviderFactory
     \<Rightarrow> ('a, 'w) ETFProviderFactory" where
  "initializeProviders clock remote credentials f0 =
     (let f1 = (if truthyKey (polygon credentials)
                then register Polygon (PolygonProvider clock remote (the (polygon credentials))) f0
                else f0);
          f2 = (if truthyKey (finnhub credentials)
                then register Finnhub (FinnhubProvider clock remote (the (finnhub credentials))) f1
                else f1);
          f3 = (if truthyKey (eodhd credentials)
                then register EODHD (EODHDProvider clock remote (the (eodhd credentials))) f2
                else f2);
          f4 = (if truthyKey (fmp credentials)
                then register FMP (FMPProvider clock remote (the (fmp credentials))) f3
                else f3);
          f5 = (if truthyKey (alphaVantage credentials)
                then register AlphaVantage
                       (AlphaVantageProvider clock remote (the (alphaVantage credentials))) f4
                else f4)
      in f5)"

definition has :: "('k \<times> 'v) list \<Rightarrow> 'k \<Rightarrow> bool" where
  "has m k = (map_of m k \<noteq> None)"

definition setDefaultPriority :: "('a, 'w) ETFProviderFactory \<Rightarrow> ('a, 'w) ETFProviderFactory" where
  "setDefaultPriority f =
     f\<lparr>providerPriority :=
         filter (\<lambda>nm. has (providers f) nm) [Polygon, EODHD, FMP, Finnhub, AlphaVantage]\<rparr>"

text \<open>The constructor, from the field initialisers (three empty containers).\<close>

definition newETFProviderFactory ::
  "('w \<Rightarrow> int) \<Rightarrow> ('a, 'w) remote \<Rightarrow> ProviderCredentials \<Rightarrow> ('a, 'w) ETFProviderFactory" where
  "newETFProviderFactory clock remote credentials =
     setDefaultPriority
       (initializeProviders clock remote credentials
          \<lparr>providers = [], providerPriority = [], healthStatus = []\<rparr>)"

definition setProviderPriority ::
  "ProviderName list \<Rightarrow> ('a, 'w) ETFProviderFactory \<Rightarrow> ('a, 'w) ETFProviderFactory" where
  "setProviderPriority priority f =
     f\<lparr>providerPriority := filter (\<lambda>nm. has (providers f) nm) priority\<rparr>"

fun getProviderCapabilities :: "ProviderName \<Rightarrow> ProviderCapabilities" where
  "getProviderCapabilities Polygon =
     \<lparr>quote = True, metadata = True, holdings = False, sectorAllocation = False,
      countryAllocation = False, performance = False, historicalData = True, search_cap = True\<rparr>"
| "getProviderCapabilities Finnhub =
     \<lparr>quote = True, metadata = True, holdings = True, sectorAllocation = True,
      countryAllocation = True, performance = False, historicalData = True, search_cap = True\<rparr>"
| "getProviderCapabilities EODHD =
     \<lparr>quote = True, metadata = True, holdings = True, sectorAllocation = True,
      countryAllocation = True, performance = False, historicalData = True, search_cap = True\<rparr>"
| "getProviderCapabilities FMP =
     \<lparr>quote = True, metadata = True, holdings = True, sectorAllocation = True,
      countryAllocation = True, performance = False, historicalData = True, search_cap = True\<rparr>"
| "getProviderCapabilities AlphaVantage =
     \<lparr>quote = True, metadata = True, holdings = False, sectorAllocation = False,
      countryAllocation = False, performance = False, historicalData = True, search_cap = True\<rparr>"

text \<open>\<^verbatim>\<open>errors.join('; ')\<close>.\<close>

fun join :: "string \<Rightarrow> string list \<Rightarrow> string" where
  "join sep [] = []"
| "join sep [x] = x"
| "join sep (x # y # ys) = x @ sep @ join sep (y # ys)"

text \<open>\<^verbatim>\<open>`${providerName}: ${result.error}`\<close>; an absent error prints as \<^verbatim>\<open>undefined\<close>.\<close>

definition failureMessage :: "ProviderName \<Rightarrow> 'a ProviderResponse \<Rightarrow> string" where
  "failureMessage nm r =
     providerNameString nm @ '': '' @ (case error r of None \<Rightarrow> ''undefined'' | Some e \<Rightarrow> e)"

text \<open>\<^verbatim>\<open>`${providerName}: ${error}`\<close> in the catch block.\<close>

definition thrownMessage :: "ProviderName \<Rightarrow> string \<Rightarrow> string" where
  "thrownMessage nm e = providerNameString nm @ '': '' @ e"

text \<open>
  The state of one run of the loop in \<^verbatim>\<open>executeWithFallback\<close>: the local
  \<^verbatim>\<open>errors\<close> array, the factory's health map, the world, and a log of the provider
  calls made (registry key and outcome), which the source does not keep and which only
  the theorems read.
\<close>

record ('a, 'w) chain =
  errors :: "string list"
  health :: "(ProviderName \<times> bool) list"
  world :: 'w
  invoked :: "(ProviderName \<times> 'a outcome) list"

text \<open>
  The \<^verbatim>\<open>for\<close> loop over \<^verbatim>\<open>this.providerPriority\<close>. \<open>Some r\<close> is the early
  \<^verbatim>\<open>return result\<close>; \<open>None\<close> is falling out of the loop.
\<close>

fun fallbackLoop ::
  "(('a, 'w) IETFDataProvider \<Rightarrow> ('a, 'w) call) \<Rightarrow> CapabilityKey
     \<Rightarrow> (ProviderName \<times> ('a, 'w) IETFDataProvider) list \<Rightarrow> ProviderName list
     \<Rightarrow> ('a, 'w) chain \<Rightarrow> 'a ProviderResponse option \<times> ('a, 'w) chain" where
  "fallbackLoop method capability provs [] st = (None, st)"
| "fallbackLoop method capability provs (providerName # rest) st =
     (case map_of provs providerName of
        None \<Rightarrow> fallbackLoop method capability provs rest st
      | Some p \<Rightarrow>
          if map_of (health st) providerName \<noteq> Some True
          then fallbackLoop method capability provs rest st
          else if \<not> capabilityAt (getProviderCapabilities providerName) capability
          then fallbackLoop method capability provs rest st
          else
            (case method p (world st) of
               (Returned r, w') \<Rightarrow>
                 if success r
                 then (Some r,
                       st\<lparr>world := w', invoked := invoked st @ [(providerName, Returned r)]\<rparr>)
                 else fallbackLoop method capability provs rest
                        (st\<lparr>errors := errors st @ [failureMessage providerName r],
                            world := w',
                            invoked := invoked st @ [(providerName, Returned r)]\<rparr>)
             | (Threw e, w') \<Rightarrow>
                 fallbackLoop method capability provs rest
                   (st\<lparr>errors := errors st @ [thrownMessage providerName e],
                       health := AList.update providerName False (health st),
                       world := w',
                       invoked := invoked st @ [(providerName, Threw e)]\<rparr>)))"

definition allFailed :: "('w \<Rightarrow> int) \<Rightarrow> string list \<Rightarrow> 'w \<Rightarrow> 'a ProviderResponse" where
  "allFailed clock errs w =
     \<lparr>data = JSNull, provider = ''factory'', timestamp = clock w, success = False,
      error = Some (''All providers failed. Errors: '' @ join ''; '' errs)\<rparr>"

text \<open>
  What a factory operation yields: the response, the factory afterwards, the world
  afterwards and the log of provider calls.
\<close>

record ('a, 'w) answer =
  response :: "'a ProviderResponse"
  factory :: "('a, 'w) ETFProviderFactory"
  after :: 'w
  calls :: "(ProviderName \<times> 'a outcome) list"

definition executeWithFallback ::
  "('w \<Rightarrow> int) \<Rightarrow> (('a, 'w) IETFDataProvider \<Rightarrow> ('a, 'w) call) \<Rightarrow> CapabilityKey
     \<Rightarrow> ('a, 'w) ETFProviderFactory \<Rightarrow> 'w \<Rightarrow> ('a, 'w) answer" where
  "executeWithFallback clock method capability f w =
     (case fallbackLoop method capability (providers f) (providerPriority f)
             \<lparr>errors = [], health = healthStatus f, world = w, invoked = []\<rparr> of
        (res, st) \<Rightarrow>
          \<lparr>response = (case res of Some r \<Rightarrow> r | None \<Rightarrow> allFailed clock (errors st) (world st)),
           factory = f\<lparr>healthStatus := health st\<rparr>,
           after = world st,
           calls = invoked st\<rparr>)"

definition factory_getQuote ::
  "('w \<Rightarrow> int) \<Rightarrow> string \<Rightarrow> ('a, 'w) ETFProviderFactory \<Rightarrow> 'w \<Rightarrow> ('a, 'w) answer" where
  "factory_getQuote clock symbol =
     executeWithFallback clock (\<lambda>p. getQuote p symbol) KeyQuote"

definition factory_getMetadata ::
  "('w \<Rightarrow> int) \<Rightarrow> string \<Rightarrow> ('a, 'w) ETFProviderFactory \<Rightarrow> 'w \<Rightarrow> ('a, 'w) answer" where
  "factory_getMetadata clock symbol =
     executeWithFallback clock (\<lambda>p. getMetadata p symbol) KeyMetadata"

definition factory_getHoldings ::
  "('w \<Rightarrow> int) \<Rightarrow> string \<Rightarrow> ('a, 'w) ETFProviderFactory \<Rightarrow> 'w \<Rightarrow> ('a, 'w) answer" where
  "factory_getHoldings clock symbol =
     executeWithFallback clock (\<lambda>p. getHoldings p symbol) KeyHoldings"

definition factory_getSectorAllocation ::
  "('w \<Rightarrow> int) \<Rightarrow> string \<Rightarrow> ('a, 'w) ETFProviderFactory \<Rightarrow> 'w \<Rightarrow> ('a, 'w) answer" where
  "factory_getSectorAllocation clock symbol =
     executeWithFallback clock (\<lambda>p. getSectorAllocation p symbol) KeySectorAllocation"

definition factory_getCountryAllocation ::
  "('w \<Rightarrow> int) \<Rightarrow> string \<Rightarrow> ('a, 'w) ETFProviderFactory \<Rightarrow> 'w \<Rightarrow> ('a, 'w) answer" where
  "factory_getCountryAllocation clock symbol =
     executeWithFallback clock (\<lambda>p. getCountryAllocation p symbol) KeyCountryAllocation"

definition factory_getPerformance ::
  "('w \<Rightarrow> int) \<Rightarrow> string \<Rightarrow> string list \<Rightarrow> ('a, 'w) ETFProviderFactory \<Rightarrow> 'w
     \<Rightarrow> ('a, 'w) answer" where
  "factory_getPerformance clock symbol periods =
     executeWithFallback clock (\<lambda>p. getPerformance p symbol periods) KeyPerformance"

definition factory_getHistoricalData ::
  "('w \<Rightarrow> int) \<Rightarrow> string \<Rightarrow> string \<Rightarrow> int \<Rightarrow> int \<Rightarrow> ('a, 'w) ETFProviderFactory \<Rightarrow> 'w
     \<Rightarrow> ('a, 'w) answer" where
  "factory_getHistoricalData clock symbol interval from to =
     executeWithFallback clock (\<lambda>p. getHistoricalData p symbol interval from to)
       KeyHistoricalData"

text \<open>\<^verbatim>\<open>search(query, limit = 10)\<close>: an omitted limit is 10.\<close>

definition factory_search ::
  "('w \<Rightarrow> int) \<Rightarrow> string \<Rightarrow> int option \<Rightarrow> ('a, 'w) ETFProviderFactory \<Rightarrow> 'w
     \<Rightarrow> ('a, 'w) answer" where
  "factory_search clock query limit =
     executeWithFallback clock
       (\<lambda>p. search p query (case limit of None \<Rightarrow> 10 | Some n \<Rightarrow> n)) KeySearch"

text \<open>
  \<^verbatim>\<open>healthCheck\<close>: the callbacks contain no \<^verbatim>\<open>await\<close>, so \<^verbatim>\<open>map\<close> runs them one
  after the other over the registry entries; each writes the health map and yields its
  pair, and \<^verbatim>\<open>new Map(results)\<close> collects the pairs. Reading \<^verbatim>\<open>provider.config\<close>
  cannot throw, so the catch branch has no counterpart.
\<close>

definition healthCheck ::
  "('a, 'w) ETFProviderFactory \<Rightarrow> (ProviderName \<times> bool) list \<times> ('a, 'w) ETFProviderFactory" where
  "healthCheck f =
     (let results = map (\<lambda>(nm, p). (nm, config p \<noteq> None)) (providers f)
      in (foldl (\<lambda>m (nm, b). AList.update nm b m) [] results,
          f\<lparr>healthStatus := foldl (\<lambda>m (nm, b). AList.update nm b m) (healthStatus f) results\<rparr>))"

record ProviderInfo =
  infoName :: string
  capabilities :: ProviderCapabilities
  infoRateLimit :: RateLimit
  isHealthy :: bool

text \<open>
  \<^verbatim>\<open>getProviderInfo\<close> reads \<^verbatim>\<open>provider.config.rateLimit\<close>; on a provider without a
  config that read throws a \<^verbatim>\<open>TypeError\<close> out of the whole call (\<open>Inl\<close>).
\<close>

definition getProviderInfo :: "('a, 'w) ETFProviderFactory \<Rightarrow> string + ProviderInfo list" where
  "getProviderInfo f =
     (if list_all (\<lambda>(nm, p). config p \<noteq> None) (providers f)
      then Inr (map (\<lambda>(nm, p).
                  \<lparr>infoName = name p,
                   capabilities = getProviderCapabilities nm,
                   infoRateLimit = rateLimit (the (config p)),
                   isHealthy = (map_of (healthStatus f) nm = Some True)\<rparr>)
                (providers f))
      else Inl ''TypeError: Cannot read properties of undefined'')"

definition getProvider ::
  "ProviderName \<Rightarrow> ('a, 'w) ETFProviderFactory \<Rightarrow> ('a, 'w) IETFDataProvider option" where
  "getProvider nm f = map_of (providers f) nm"

definition hasProviders :: "('a, 'w) ETFProviderFactory \<Rightarrow> bool" where
  "hasProviders f = (length (providers f) > 0)"

definition getAvailableProviders :: "('a, 'w) ETFProviderFactory \<Rightarrow> ProviderName list" where
  "getAvailableProviders f = map fst (providers f)"

subsection \<open>Operations as data\<close>

text \<open>The capability key each factory operation passes to \<^verbatim>\<open>executeWithFallback\<close>.\<close>

fun capabilityOf :: "request \<Rightarrow> CapabilityKey" where
  "capabilityOf (GetQuote s) = KeyQuote"
| "capabilityOf (GetMetadata s) = KeyMetadata"
| "capabilityOf (GetHoldings s) = KeyHoldings"
| "capabilityOf (GetSectorAllocation s) = KeySectorAllocation"
| "capabilityOf (GetCountryAllocation s) = KeyCountryAllocation"
| "capabilityOf (GetPerformance s ps) = KeyPerformance"
| "capabilityOf (GetHistoricalData s i a b) = KeyHistoricalData"
| "capabilityOf (Search q l) = KeySearch"

text \<open>Calling the operation on a provider object directly.\<close>

fun invoke :: "request \<Rightarrow> ('a, 'w) IETFDataProvider \<Rightarrow> ('a, 'w) call" where
  "invoke (GetQuote s) p = getQuote p s"
| "invoke (GetMetadata s) p = getMetadata p s"
| "invoke (GetHoldings s) p = getHoldings p s"
| "invoke (GetSectorAllocation s) p = getSectorAllocation p s"
| "invoke (GetCountryAllocation s) p = getCountryAllocation p s"
| "invoke (GetPerformance s ps) p = getPerformance p s ps"
| "invoke (GetHistoricalData s i a b) p = getHistoricalData p s i a b"
| "invoke (Search q l) p = search p q (case l of None \<Rightarrow> 10 | Some n \<Rightarrow> n)"

text \<open>Calling the operation on the factory.\<close>

fun serve ::
  "('w \<Rightarrow> int) \<Rightarrow> request \<Rightarrow> ('a, 'w) ETFProviderFactory \<Rightarrow> 'w \<Rightarrow> ('a, 'w) answer" where
  "serve clock (GetQuote s) = factory_getQuote clock s"
| "serve clock (GetMetadata s) = factory_getMetadata clock s"
| "serve clock (GetHoldings s) = factory_getHoldings clock s"
| "serve clock (GetSectorAllocation s) = factory_getSectorAllocation clock s"
| "serve clock (GetCountryAllocation s) = factory_getCountryAllocation clock s"
| "serve clock (GetPerformance s ps) = factory_getPerformance clock s ps"
| "serve clock (GetHistoricalData s i a b) = factory_getHistoricalData clock s i a b"
| "serve clock (Search q l) = factory_search clock q l"

text \<open>Every public member of the factory, and what it does to the factory and the world.\<close>

datatype operation =
  Fetch request
  | SetProviderPriority "ProviderName list"
  | HealthCheck
  | GetProviderInfo
  | GetProvider ProviderName
  | HasProviders
  | GetAvailableProviders

text \<open>One operation: the factory and world afterwards, and the provider calls it made.\<close>

fun step ::
  "('w \<Rightarrow> int) \<Rightarrow> operation \<Rightarrow> ('a, 'w) ETFProviderFactory \<Rightarrow> 'w
     \<Rightarrow> ('a, 'w) ETFProviderFactory \<times> 'w \<times> (ProviderName \<times> 'a outcome) list" where
  "step clock (Fetch r) f w =
     (let a = serve clock r f w in (factory a, after a, calls a))"
| "step clock (SetProviderPriority priority) f w = (setProviderPriority priority f, w, [])"
| "step clock HealthCheck f w = (snd (healthCheck f), w, [])"
| "step clock GetProviderInfo f w = (f, w, [])"
| "step clock (GetProvider nm) f w = (f, w, [])"
| "step clock HasProviders f w = (f, w, [])"
| "step clock GetAvailableProviders f w = (f, w, [])"

text \<open>A sequence of operations, one after the other.\<close>

fun run ::
  "('w \<Rightarrow> int) \<Rightarrow> operation list \<Rightarrow> ('a, 'w) ETFProviderFactory \<Rightarrow> 'w
     \<Rightarrow> ('a, 'w) ETFProviderFactory \<times> 'w \<times> (ProviderName \<times> 'a outcome) list" where
  "run clock [] f w = (f, w, [])"
| "run clock (op # ops) f w =
     (case step clock op f w of
        (f', w', cs) \<Rightarrow> (case run clock ops f' w' of (f'', w'', cs') \<Rightarrow> (f'', w'', cs @ cs')))"


subsection \<open>Vocabulary of the theorems\<close>

text \<open>
  What \<^verbatim>\<open>initializeProviders\<close> reads and builds for each registry key: the
  credential field it tests and the class it instantiates.
\<close>

fun credentialFor :: "ProviderCredentials \<Rightarrow> ProviderName \<Rightarrow> string option" where
  "credentialFor c Polygon = polygon c"
| "credentialFor c Finnhub = finnhub c"
| "credentialFor c EODHD = eodhd c"
| "credentialFor c FMP = fmp c"
| "credentialFor c AlphaVantage = alphaVantage c"

fun construct ::
  "('w \<Rightarrow> int) \<Rightarrow> ('a, 'w) remote \<Rightarrow> ProviderName \<Rightarrow> string \<Rightarrow> ('a, 'w) IETFDataProvider" where
  "construct clock remote Polygon key = PolygonProvider clock remote key"
| "construct clock remote Finnhub key = FinnhubProvider clock remote key"
| "construct clock remote EODHD key = EODHDProvider clock remote key"
| "construct clock remote FMP key = FMPProvider clock remote key"
| "construct clock remote AlphaVantage key = AlphaVantageProvider clock remote key"

text \<open>
  The three tests a name must pass at the top of the loop body before the provider is
  called: registered, health entry \<^verbatim>\<open>true\<close>, capability entry \<^verbatim>\<open>true\<close>.
\<close>

definition eligible ::
  "(ProviderName \<times> ('a, 'w) IETFDataProvider) list \<Rightarrow> (ProviderName \<times> bool) list
     \<Rightarrow> CapabilityKey \<Rightarrow> ProviderName \<Rightarrow> bool" where
  "eligible provs h capability nm =
     (has provs nm \<and> map_of h nm = Some True
      \<and> capabilityAt (getProviderCapabilities nm) capability)"

text \<open>
  The health map at a point of a run: the map the run started from, with the entry of
  every provider that threw in the calls logged so far set to \<open>False\<close>, as the catch
  block does.
\<close>

fun healthAt ::
  "(ProviderName \<times> bool) list \<Rightarrow> (ProviderName \<times> 'a outcome) list \<Rightarrow> (ProviderName \<times> bool) list" where
  "healthAt h [] = h"
| "healthAt h ((nm, Returned r) # log) = healthAt h log"
| "healthAt h ((nm, Threw e) # log) = healthAt (AList.update nm False h) log"

text \<open>
  A call log follows a priority list from a health map when walking the list gives
  exactly that log: a name that fails one of the three tests against the current map is
  passed over; a name that passes them is the next call of the log; after a throw the
  walk goes on with that name marked unhealthy, after a domain failure with the map as it
  is, and a success ends the log.
\<close>

fun follows ::
  "(ProviderName \<times> ('a, 'w) IETFDataProvider) list \<Rightarrow> CapabilityKey
     \<Rightarrow> (ProviderName \<times> bool) list \<Rightarrow> ProviderName list
     \<Rightarrow> (ProviderName \<times> 'a outcome) list \<Rightarrow> bool" where
  "follows provs capability h [] log = (log = [])"
| "follows provs capability h (nm # rest) log =
     (if \<not> eligible provs h capability nm then follows provs capability h rest log
      else
        (case log of
           [] \<Rightarrow> False
         | c # log' \<Rightarrow>
             fst c = nm \<and>
             (case snd c of
                Returned r \<Rightarrow>
                  if success r then log' = [] else follows provs capability h rest log'
              | Threw e \<Rightarrow> follows provs capability (AList.update nm False h) rest log')))"

text \<open>The symbol argument of a request; \<^verbatim>\<open>search\<close> takes a query instead.\<close>

fun symbolOf :: "request \<Rightarrow> string option" where
  "symbolOf (GetQuote s) = Some s"
| "symbolOf (GetMetadata s) = Some s"
| "symbolOf (GetHoldings s) = Some s"
| "symbolOf (GetSectorAllocation s) = Some s"
| "symbolOf (GetCountryAllocation s) = Some s"
| "symbolOf (GetPerformance s ps) = Some s"
| "symbolOf (GetHistoricalData s i a b) = Some s"
| "symbolOf (Search q l) = None"

text \<open>The text each network-backed method puts before the caught error.\<close>

fun failureLabel :: "request \<Rightarrow> string" where
  "failureLabel (GetQuote s) = ''Failed to fetch quote: ''"
| "failureLabel (GetMetadata s) = ''Failed to fetch metadata: ''"
| "failureLabel (GetHoldings s) = ''Failed to fetch holdings: ''"
| "failureLabel (GetSectorAllocation s) = ''Failed to fetch sector allocation: ''"
| "failureLabel (GetCountryAllocation s) = ''Failed to fetch country allocation: ''"
| "failureLabel (GetPerformance s ps) = []"
| "failureLabel (GetHistoricalData s i a b) = ''Failed to fetch historical data: ''"
| "failureLabel (Search q l) = ''Failed to search: ''"

text \<open>The invariant of the priority list: every name in it is a key of the registry.\<close>

definition priorityRegistered :: "('a, 'w) ETFProviderFactory \<Rightarrow> bool" where
  "priorityRegistered f = list_all (has (providers f)) (providerPriority f)"

text \<open>A logged call that did not end the loop: a throw, or a result without success.\<close>

fun failed :: "ProviderName \<times> 'a outcome \<Rightarrow> bool" where
  "failed (nm, Returned r) = (\<not> success r)"
| "failed (nm, Threw e) = True"

fun threw :: "ProviderName \<times> 'a outcome \<Rightarrow> bool" where
  "threw (nm, Returned r) = False"
| "threw (nm, Threw e) = True"

text \<open>The entry the loop pushes on \<^verbatim>\<open>errors\<close> for a logged call.\<close>

fun message :: "ProviderName \<times> 'a outcome \<Rightarrow> string" where
  "message (nm, Returned r) = failureMessage nm r"
| "message (nm, Threw e) = thrownMessage nm e"

subsection \<open>Concrete scenarios\<close>

text \<open>
  Fixtures for evaluating the model: the world is the number of provider calls that went
  out so far, and the clock reads it. \<open>networkDown\<close> makes every network-backed body
  throw; \<open>networkUp\<close> makes it return a success. \<open>brokenProvider\<close> is an object
  whose every method throws, which none of the five classes does.
\<close>

definition tick :: "nat \<Rightarrow> int" where
  "tick w = int w"

definition networkDown :: "(unit, nat) remote" where
  "networkDown nm r w = (Threw ''Error: HTTP 500: Internal Server Error - '', Suc w)"

text \<open>The \<^verbatim>\<open>name\<close> field of the class registered under each key.\<close>

fun className :: "ProviderName \<Rightarrow> string" where
  "className Polygon = ''Polygon.io''"
| "className Finnhub = ''Finnhub''"
| "className EODHD = ''EODHD''"
| "className FMP = ''Financial Modeling Prep''"
| "className AlphaVantage = ''Alpha Vantage''"

definition networkUp :: "(unit, nat) remote" where
  "networkUp nm r w =
     (Returned (createSuccessResponse tick (className nm) () (Suc w)), Suc w)"

definition brokenProvider :: "(unit, nat) IETFDataProvider" where
  "brokenProvider =
     \<lparr>name = ''Broken'',
      config = Some \<lparr>cfgName = ''Broken'', apiKey = ''bk'', baseUrl = ''https://broken.invalid'',
                     rateLimit = \<lparr>requestsPerMinute = 1, requestsPerDay = 1\<rparr>,
                     endpoints = []\<rparr>,
      getQuote = (\<lambda>s w. (Threw ''TypeError: fetch failed'', Suc w)),
      getMetadata = (\<lambda>s w. (Threw ''TypeError: fetch failed'', Suc w)),
      getHoldings = (\<lambda>s w. (Threw ''TypeError: fetch failed'', Suc w)),
      getSectorAllocation = (\<lambda>s w. (Threw ''TypeError: fetch failed'', Suc w)),
      getCountryAllocation = (\<lambda>s w. (Threw ''TypeError: fetch failed'', Suc w)),
      getPerformance = (\<lambda>s ps w. (Threw ''TypeError: fetch failed'', Suc w)),
      getHistoricalData = (\<lambda>s i a b w. (Threw ''TypeError: fetch failed'', Suc w)),
      search = (\<lambda>q l w. (Threw ''TypeError: fetch failed'', Suc w))\<rparr>"

text \<open>Keys for Polygon and EODHD only.\<close>

definition twoKeys :: ProviderCredentials where
  "twoKeys = \<lparr>polygon = Some ''pk'', finnhub = None, eodhd = Some ''ek'', fmp = None,
              alphaVantage = None\<rparr>"

definition noKeys :: ProviderCredentials where
  "noKeys = \<lparr>polygon = None, finnhub = None, eodhd = None, fmp = None, alphaVantage = None\<rparr>"

text \<open>The factory built from those two keys while the network is down, and while it is up.\<close>

definition downFactory :: "(unit, nat) ETFProviderFactory" where
  "downFactory = newETFProviderFactory tick networkDown twoKeys"

definition upFactory :: "(unit, nat) ETFProviderFactory" where
  "upFactory = newETFProviderFactory tick networkUp twoKeys"

text \<open>A key for Polygon only, and the factory built from it.\<close>

definition polygonKey :: ProviderCredentials where
  "polygonKey = \<lparr>polygon = Some ''pk'', finnhub = None, eodhd = None, fmp = None,
                 alphaVantage = None\<rparr>"

definition polygonOnly :: "(unit, nat) ETFProviderFactory" where
  "polygonOnly = newETFProviderFactory tick networkUp polygonKey"

text \<open>The factory built without any key.\<close>

definition emptyFactory :: "(unit, nat) ETFProviderFactory" where
  "emptyFactory = newETFProviderFactory tick networkUp noKeys"

text \<open>A factory whose Polygon entry is the broken object, ahead of a working EODHD.\<close>

definition brokenFirst :: "(unit, nat) ETFProviderFactory" where
  "brokenFirst =
     \<lparr>providers = [(Polygon, brokenProvider), (EODHD, EODHDProvider tick networkUp ''ek'')],
      providerPriority = [Polygon, EODHD],
      healthStatus = [(Polygon, True), (EODHD, True)]\<rparr>"

text \<open>The same factory after the operator asked for Polygon twice, then EODHD.\<close>

definition repeatedFirst :: "(unit, nat) ETFProviderFactory" where
  "repeatedFirst = setProviderPriority [Polygon, Polygon, EODHD] brokenFirst"

section \<open>Properties\<close>

text \<open>Unfolding sets: the scenario factories, and the five classes.\<close>

lemmas scenario_defs =
  downFactory_def upFactory_def newETFProviderFactory_def initializeProviders_def
  setDefaultPriority_def register_def twoKeys_def noKeys_def truthyKey_def has_def

lemmas provider_defs =
  PolygonProvider_def FinnhubProvider_def EODHDProvider_def FMPProvider_def
  AlphaVantageProvider_def

subsection \<open>One iteration of the fallback loop\<close>

lemma loop_skip:
  "\<not> eligible provs (health st) capability nm \<Longrightarrow>
   fallbackLoop meth capability provs (nm # rest) st =
   fallbackLoop meth capability provs rest st"
  by (auto simp: eligible_def has_def split: option.splits)

lemma loop_success:
  "eligible provs (health st) capability nm \<Longrightarrow> map_of provs nm = Some p \<Longrightarrow> meth p (world st) = (Returned r, w') \<Longrightarrow> success r \<Longrightarrow>
   fallbackLoop meth capability provs (nm # rest) st =
     (Some r, st\<lparr>world := w', invoked := invoked st @ [(nm, Returned r)]\<rparr>)"
  by (auto simp: eligible_def has_def)

lemma loop_failure:
  "eligible provs (health st) capability nm \<Longrightarrow> map_of provs nm = Some p \<Longrightarrow> meth p (world st) = (Returned r, w') \<Longrightarrow> \<not> success r \<Longrightarrow>
   fallbackLoop meth capability provs (nm # rest) st =
     fallbackLoop meth capability provs rest
       (st\<lparr>errors := errors st @ [failureMessage nm r], world := w',
           invoked := invoked st @ [(nm, Returned r)]\<rparr>)"
  by (auto simp: eligible_def has_def)

lemma loop_throw:
  "eligible provs (health st) capability nm \<Longrightarrow> map_of provs nm = Some p \<Longrightarrow> meth p (world st) = (Threw e, w') \<Longrightarrow>
   fallbackLoop meth capability provs (nm # rest) st =
     fallbackLoop meth capability provs rest
       (st\<lparr>errors := errors st @ [thrownMessage nm e],
           health := AList.update nm False (health st), world := w',
           invoked := invoked st @ [(nm, Threw e)]\<rparr>)"
  by (auto simp: eligible_def has_def)

declare fallbackLoop.simps(2) [simp del]

text \<open>Every iteration is one of the four: skip, success, domain failure, throw.\<close>

lemma loop_cases [case_names skip success failure throw]:
  assumes "\<not> eligible provs (health st) capability nm \<Longrightarrow> Q"
    and "\<And>p r w'. eligible provs (health st) capability nm \<Longrightarrow> map_of provs nm = Some p \<Longrightarrow> meth p (world st) = (Returned r, w') \<Longrightarrow> success r \<Longrightarrow> Q"
    and "\<And>p r w'. eligible provs (health st) capability nm \<Longrightarrow> map_of provs nm = Some p \<Longrightarrow> meth p (world st) = (Returned r, w') \<Longrightarrow> \<not> success r \<Longrightarrow> Q"
    and "\<And>p e w'. eligible provs (health st) capability nm \<Longrightarrow> map_of provs nm = Some p \<Longrightarrow> meth p (world st) = (Threw e, w') \<Longrightarrow> Q"
  shows Q
proof (cases "eligible provs (health st) capability nm")
  case False
  then show ?thesis by (rule assms(1))
next
  case True
  then obtain p where p: "map_of provs nm = Some p"
    by (auto simp: eligible_def has_def)
  obtain out w' where m: "meth p (world st) = (out, w')"
    by (cases "meth p (world st)")
  show ?thesis
  proof (cases out)
    case (Returned r)
    with True p m assms(2,3) show ?thesis by (cases "success r") auto
  next
    case (Threw e)
    with True p m assms(4) show ?thesis by auto
  qed
qed

subsection \<open>Whole runs of the loop\<close>

lemma loop_shape:
  "fallbackLoop meth capability provs L st = (res, st') \<Longrightarrow>
   \<exists>pre. list_all failed pre
     \<and> errors st' = errors st @ map message pre
     \<and> (res = None \<longrightarrow> invoked st' = invoked st @ pre)
     \<and> (\<forall>r. res = Some r \<longrightarrow>
            success r \<and> (\<exists>nm. invoked st' = invoked st @ pre @ [(nm, Returned r)]))"
proof (induction L arbitrary: st)
  case Nil
  then show ?case by (intro exI[of _ "[]"]) auto
next
  case (Cons nm rest)
  show ?case
  proof (cases rule: loop_cases[where provs=provs and st=st and capability=capability and nm=nm and meth=meth])
    case skip
    with Cons.prems have "fallbackLoop meth capability provs rest st = (res, st')"
      by (simp add: loop_skip)
    from Cons.IH[OF this] show ?thesis .
  next
    case (success p r w')
    from loop_success[where meth=meth, OF this] Cons.prems success(4) show ?thesis
      by (intro exI[of _ "[]"]) auto
  next
    case (failure p r w')
    from loop_failure[where meth=meth, OF this] Cons.prems have
      "fallbackLoop meth capability provs rest
         (st\<lparr>errors := errors st @ [failureMessage nm r], world := w',
             invoked := invoked st @ [(nm, Returned r)]\<rparr>) = (res, st')" by simp
    from Cons.IH[OF this] obtain pre where pre: "list_all failed pre"
      "errors st' = (errors st @ [failureMessage nm r]) @ map message pre"
      "res = None \<longrightarrow> invoked st' = (invoked st @ [(nm, Returned r)]) @ pre"
      "\<forall>r'. res = Some r' \<longrightarrow> success r' \<and>
          (\<exists>nm'. invoked st' = (invoked st @ [(nm, Returned r)]) @ pre @ [(nm', Returned r')])"
      by auto
    with failure(4) show ?thesis
      by (intro exI[of _ "(nm, Returned r) # pre"]) auto
  next
    case (throw p e w')
    from loop_throw[where meth=meth, OF this] Cons.prems have
      "fallbackLoop meth capability provs rest
            (st\<lparr>errors := errors st @ [thrownMessage nm e],
                health := AList.update nm False (health st), world := w',
                invoked := invoked st @ [(nm, Threw e)]\<rparr>) = (res, st')" by simp
    from Cons.IH[OF this] obtain pre where pre: "list_all failed pre"
      "errors st' = (errors st @ [thrownMessage nm e]) @ map message pre"
      "res = None \<longrightarrow> invoked st' = (invoked st @ [(nm, Threw e)]) @ pre"
      "\<forall>r'. res = Some r' \<longrightarrow> success r' \<and>
          (\<exists>nm'. invoked st' = (invoked st @ [(nm, Threw e)]) @ pre @ [(nm', Returned r')])"
      by auto
    then show ?thesis
      by (intro exI[of _ "(nm, Threw e) # pre"]) auto
  qed
qed


lemma loop_induct [consumes 1, case_names Nil skip success failure throw]:
  assumes run: "fallbackLoop meth capability provs L st = (res, st')"
    and Nil: "\<And>st. P [] st None st"
    and skip: "\<And>nm rest st res st'.
        \<not> eligible provs (health st) capability nm \<Longrightarrow>
        fallbackLoop meth capability provs rest st = (res, st') \<Longrightarrow>
        P rest st res st' \<Longrightarrow> P (nm # rest) st res st'"
    and success: "\<And>nm rest st p r w'.
        eligible provs (health st) capability nm \<Longrightarrow> map_of provs nm = Some p \<Longrightarrow> meth p (world st) = (Returned r, w') \<Longrightarrow> success r \<Longrightarrow>
        P (nm # rest) st (Some r)
          (st\<lparr>world := w', invoked := invoked st @ [(nm, Returned r)]\<rparr>)"
    and failure: "\<And>nm rest st p r w' res st'.
        eligible provs (health st) capability nm \<Longrightarrow> map_of provs nm = Some p \<Longrightarrow> meth p (world st) = (Returned r, w') \<Longrightarrow> \<not> success r \<Longrightarrow>
        P rest (st\<lparr>errors := errors st @ [failureMessage nm r], world := w',
                   invoked := invoked st @ [(nm, Returned r)]\<rparr>) res st' \<Longrightarrow>
        P (nm # rest) st res st'"
    and throw: "\<And>nm rest st p e w' res st'.
        eligible provs (health st) capability nm \<Longrightarrow> map_of provs nm = Some p \<Longrightarrow> meth p (world st) = (Threw e, w') \<Longrightarrow>
        P rest (st\<lparr>errors := errors st @ [thrownMessage nm e],
                   health := AList.update nm False (health st), world := w',
                   invoked := invoked st @ [(nm, Threw e)]\<rparr>) res st' \<Longrightarrow>
        P (nm # rest) st res st'"
  shows "P L st res st'"
  using run
proof (induction L arbitrary: st)
  case Nil
  then show ?case using assms(2) by simp
next
  case (Cons nm rest)
  show ?case
  proof (cases rule: loop_cases[where provs=provs and st=st and capability=capability and nm=nm and meth=meth])
    case skip
    with Cons.prems have r: "fallbackLoop meth capability provs rest st = (res, st')"
      by (simp add: loop_skip)
    from assms(3)[OF skip r Cons.IH[OF r]] show ?thesis .
  next
    case (success p r w')
    from loop_success[where meth=meth, OF this] Cons.prems assms(4)[OF success]
    show ?thesis by auto
  next
    case (failure p r w')
    from loop_failure[where meth=meth, OF this] Cons.prems have
      "fallbackLoop meth capability provs rest
         (st\<lparr>errors := errors st @ [failureMessage nm r], world := w',
             invoked := invoked st @ [(nm, Returned r)]\<rparr>) = (res, st')" by simp
    from assms(5)[OF failure Cons.IH[OF this]] show ?thesis .
  next
    case (throw p e w')
    from loop_throw[where meth=meth, OF this] Cons.prems have
      "fallbackLoop meth capability provs rest
            (st\<lparr>errors := errors st @ [thrownMessage nm e],
                health := AList.update nm False (health st), world := w',
                invoked := invoked st @ [(nm, Threw e)]\<rparr>) = (res, st')" by simp
    from assms(6)[OF throw Cons.IH[OF this]] show ?thesis .
  qed
qed

lemma eligible_update_False:
  "eligible provs (AList.update nm False h) capability x \<Longrightarrow> eligible provs h capability x"
  by (auto simp: eligible_def update_conv' split: if_splits)

lemma eligible_update_other:
  "x \<noteq> nm \<Longrightarrow> eligible provs (AList.update nm False h) capability x = eligible provs h capability x"
  by (auto simp: eligible_def update_conv')

lemma subseq_filter_mono:
  "(\<And>x. P x \<Longrightarrow> Q x) \<Longrightarrow> subseq (filter P xs) (filter Q xs)"
  by (induction xs) (auto intro: subseq_Cons')

lemma loop_order:
  "fallbackLoop meth capability provs L st = (res, st') \<Longrightarrow>
   \<exists>new. invoked st' = invoked st @ new
     \<and> subseq (map fst new) (filter (eligible provs (health st) capability) L)
     \<and> (distinct L \<longrightarrow> prefix (map fst new) (filter (eligible provs (health st) capability) L))
     \<and> (distinct L \<longrightarrow> res = None \<longrightarrow>
          map fst new = filter (eligible provs (health st) capability) L)"
proof (induction rule: loop_induct)
  case (Nil st)
  then show ?case by simp
next
  case (skip nm rest st res st')
  have f: "filter (eligible provs (health st) capability) (nm # rest) =
           filter (eligible provs (health st) capability) rest"
    using skip(1) by simp
  from skip(3) obtain new where new: "invoked st' = invoked st @ new"
     "subseq (map fst new) (filter (eligible provs (health st) capability) rest)"
     "distinct rest \<longrightarrow> prefix (map fst new) (filter (eligible provs (health st) capability) rest)"
     "distinct rest \<longrightarrow> res = None \<longrightarrow>
          map fst new = filter (eligible provs (health st) capability) rest"
    by blast
  show ?case unfolding f using new by (intro exI[of _ new]) simp
next
  case (success nm rest st p r w')
  have f: "filter (eligible provs (health st) capability) (nm # rest) =
           nm # filter (eligible provs (health st) capability) rest"
    using success(1) by simp
  show ?case unfolding f by (intro exI[of _ "[(nm, Returned r)]"]) simp
next
  case (failure nm rest st p r w' res st')
  have f: "filter (eligible provs (health st) capability) (nm # rest) =
           nm # filter (eligible provs (health st) capability) rest"
    using failure(1) by simp
  note IH = failure(5)[simplified]
  from IH obtain new where new: "invoked st' = invoked st @ (nm, Returned r) # new"
     "subseq (map fst new) (filter (eligible provs (health st) capability) rest)"
     "distinct rest \<longrightarrow> prefix (map fst new) (filter (eligible provs (health st) capability) rest)"
     "distinct rest \<longrightarrow> res = None \<longrightarrow>
          map fst new = filter (eligible provs (health st) capability) rest"
    by blast
  show ?case unfolding f using new
    by (intro exI[of _ "(nm, Returned r) # new"]) simp
next
  case (throw nm rest st p e w' res st')
  let ?h = "AList.update nm False (health st)"
  note IH = throw(4)[simplified]
  from IH obtain new where new: "invoked st' = invoked st @ (nm, Threw e) # new"
     "subseq (map fst new) (filter (eligible provs ?h capability) rest)"
     "distinct rest \<longrightarrow> prefix (map fst new) (filter (eligible provs ?h capability) rest)"
     "distinct rest \<longrightarrow> res = None \<longrightarrow>
          map fst new = filter (eligible provs ?h capability) rest"
    by blast
  have mono: "subseq (filter (eligible provs ?h capability) rest)
                     (filter (eligible provs (health st) capability) rest)"
    by (rule subseq_filter_mono) (rule eligible_update_False)
  have same: "nm \<notin> set rest \<Longrightarrow>
     filter (eligible provs ?h capability) rest = filter (eligible provs (health st) capability) rest"
  proof (rule filter_cong[OF refl])
    fix x assume "nm \<notin> set rest" "x \<in> set rest"
    then have "x \<noteq> nm" by auto
    then show "eligible provs ?h capability x = eligible provs (health st) capability x"
      by (rule eligible_update_other)
  qed
  from new(2) mono have ss: "subseq (map fst new) (filter (eligible provs (health st) capability) rest)"
    by (rule subseq_order.trans)
  have f: "filter (eligible provs (health st) capability) (nm # rest) =
           nm # filter (eligible provs (health st) capability) rest"
    using throw(1) by simp
  show ?case
  proof (intro exI[of _ "(nm, Threw e) # new"] conjI impI)
    show "invoked st' = invoked st @ (nm, Threw e) # new"
      using new(1) by simp
    show "subseq (map fst ((nm, Threw e) # new))
            (filter (eligible provs (health st) capability) (nm # rest))"
      unfolding f using ss by simp
  next
    assume d: "distinct (nm # rest)"
    with new(3) same
    have "prefix (map fst new) (filter (eligible provs (health st) capability) rest)"
      by simp
    then show "prefix (map fst ((nm, Threw e) # new))
            (filter (eligible provs (health st) capability) (nm # rest))"
      unfolding f by simp
  next
    assume d: "distinct (nm # rest)" and n: "res = None"
    with new(4) same
    have "map fst new = filter (eligible provs (health st) capability) rest"
      by simp
    then show "map fst ((nm, Threw e) # new) =
            filter (eligible provs (health st) capability) (nm # rest)"
      unfolding f by simp
  qed
qed

lemma loop_health:
  "fallbackLoop meth capability provs L st = (res, st') \<Longrightarrow>
   \<exists>new. invoked st' = invoked st @ new
     \<and> (\<forall>x e. (x, Threw e) \<in> set new \<longrightarrow> map_of (health st') x = Some False)
     \<and> (\<forall>x. (\<forall>e. (x, Threw e) \<notin> set new) \<longrightarrow> map_of (health st') x = map_of (health st) x)
     \<and> (\<not> list_ex threw new \<longrightarrow> health st' = health st)"
proof (induction rule: loop_induct)
  case (Nil st)
  then show ?case by simp
next
  case (skip nm rest st res st')
  then show ?case by blast
next
  case (success nm rest st p r w')
  show ?case by (intro exI[of _ "[(nm, Returned r)]"]) simp
next
  case (failure nm rest st p r w' res st')
  note IH = failure(5)[simplified]
  from IH obtain new where new: "invoked st' = invoked st @ (nm, Returned r) # new"
     "\<forall>x e. (x, Threw e) \<in> set new \<longrightarrow> map_of (health st') x = Some False"
     "\<forall>x. (\<forall>e. (x, Threw e) \<notin> set new) \<longrightarrow> map_of (health st') x = map_of (health st) x"
     "\<not> list_ex threw new \<longrightarrow> health st' = health st"
    by blast
  then show ?case
    by (intro exI[of _ "(nm, Returned r) # new"]) simp
next
  case (throw nm rest st p e w' res st')
  note IH = throw(4)[simplified]
  from IH obtain new where new: "invoked st' = invoked st @ (nm, Threw e) # new"
     "\<forall>x e. (x, Threw e) \<in> set new \<longrightarrow> map_of (health st') x = Some False"
     "\<forall>x. (\<forall>e. (x, Threw e) \<notin> set new) \<longrightarrow>
          map_of (health st') x = map_of (AList.update nm False (health st)) x"
    by blast
  show ?case
  proof (intro exI[of _ "(nm, Threw e) # new"] conjI allI impI)
    show "invoked st' = invoked st @ (nm, Threw e) # new" by (rule new(1))
  next
    fix x ea assume a: "(x, Threw ea) \<in> set ((nm, Threw e) # new)"
    show "map_of (health st') x = Some False"
    proof (cases "\<exists>e'. (x, Threw e') \<in> set new")
      case True
      with new(2) show ?thesis by blast
    next
      case False
      with a have "x = nm" by auto
      with False new(3) show ?thesis by (simp add: update_conv')
    qed
  next
    fix x assume a: "\<forall>ea. (x, Threw ea) \<notin> set ((nm, Threw e) # new)"
    then have "x \<noteq> nm" "\<forall>e. (x, Threw e) \<notin> set new" by auto
    with new(3) show "map_of (health st') x = map_of (health st) x"
      by (simp add: update_conv')
  next
    assume "\<not> list_ex threw ((nm, Threw e) # new)"
    then show "health st' = health st" by simp
  qed
qed

lemma execute_unfold:
  "fallbackLoop meth capability (providers f) (providerPriority f)
      \<lparr>errors = [], health = healthStatus f, world = w, invoked = []\<rparr> = (res, st) \<Longrightarrow>
   executeWithFallback clock meth capability f w =
     \<lparr>response = (case res of Some r \<Rightarrow> r | None \<Rightarrow> allFailed clock (errors st) (world st)),
      factory = f\<lparr>healthStatus := health st\<rparr>, after = world st, calls = invoked st\<rparr>"
  by (simp add: executeWithFallback_def)

lemma invoke_fun:
  "invoke (GetQuote s) = (\<lambda>p. getQuote p s)"
  "invoke (GetMetadata s) = (\<lambda>p. getMetadata p s)"
  "invoke (GetHoldings s) = (\<lambda>p. getHoldings p s)"
  "invoke (GetSectorAllocation s) = (\<lambda>p. getSectorAllocation p s)"
  "invoke (GetCountryAllocation s) = (\<lambda>p. getCountryAllocation p s)"
  "invoke (GetPerformance s ps) = (\<lambda>p. getPerformance p s ps)"
  "invoke (GetHistoricalData s i a b) = (\<lambda>p. getHistoricalData p s i a b)"
  "invoke (Search q l) = (\<lambda>p. search p q (case l of None \<Rightarrow> 10 | Some n \<Rightarrow> n))"
  by (rule ext, simp)+

lemma serve_execute:
  "serve clock r = executeWithFallback clock (invoke r) (capabilityOf r)"
  by (cases r)
     (simp_all add: factory_getQuote_def factory_getMetadata_def factory_getHoldings_def
        factory_getSectorAllocation_def factory_getCountryAllocation_def
        factory_getPerformance_def factory_getHistoricalData_def factory_search_def
        invoke_fun del: invoke.simps)

subsection \<open>The whole operation\<close>

lemma subseq_member:
  assumes "subseq xs ys" and "x \<in> set xs"
  shows "x \<in> set ys"
  by (rule list_emb_set[OF assms]) simp

lemma execute_run:
  obtains res st where
    "fallbackLoop meth capability (providers f) (providerPriority f)
        \<lparr>errors = [], health = healthStatus f, world = w, invoked = []\<rparr> = (res, st)"
    "executeWithFallback clock meth capability f w =
       \<lparr>response = (case res of Some r \<Rightarrow> r | None \<Rightarrow> allFailed clock (errors st) (world st)),
        factory = f\<lparr>healthStatus := health st\<rparr>, after = world st, calls = invoked st\<rparr>"
proof -
  obtain res st where
    r: "fallbackLoop meth capability (providers f) (providerPriority f)
        \<lparr>errors = [], health = healthStatus f, world = w, invoked = []\<rparr> = (res, st)"
    by (cases "fallbackLoop meth capability (providers f) (providerPriority f)
        \<lparr>errors = [], health = healthStatus f, world = w, invoked = []\<rparr>")
  from that[OF r execute_unfold[OF r]] show thesis .
qed

subsection \<open>The health map during a run\<close>

lemma healthAt_append: "healthAt h (xs @ ys) = healthAt (healthAt h xs) ys"
  by (induction h xs rule: healthAt.induct) simp_all

lemma healthAt_False_stays:
  "map_of h nm = Some False \<Longrightarrow> map_of (healthAt h log) nm = Some False"
  by (induction h log rule: healthAt.induct) (simp_all add: update_conv')

lemma healthAt_thrown:
  "(nm, Threw e) \<in> set log \<Longrightarrow> map_of (healthAt h log) nm = Some False"
proof (induction h log rule: healthAt.induct)
  case (1 h)
  then show ?case by simp
next
  case (2 h nm' r log)
  then show ?case by simp
next
  case (3 h nm' e' log)
  show ?case
  proof (cases "(nm, Threw e) \<in> set log")
    case True
    with 3 show ?thesis by simp
  next
    case False
    with 3(2) have "nm' = nm" by simp
    then have "map_of (AList.update nm' False h) nm = Some False" by (simp add: update_conv')
    then show ?thesis by (simp add: healthAt_False_stays)
  qed
qed

lemma loop_follows:
  "fallbackLoop meth capability provs L st = (res, st') \<Longrightarrow>
   \<exists>new. invoked st' = invoked st @ new
     \<and> follows provs capability (health st) L new
     \<and> health st' = healthAt (health st) new
     \<and> (\<forall>before nm out later. new = before @ (nm, out) # later \<longrightarrow>
           eligible provs (healthAt (health st) before) capability nm)"
proof (induction rule: loop_induct)
  case (Nil st)
  then show ?case by simp
next
  case (skip nm rest st res st')
  from skip(3) obtain new where new: "invoked st' = invoked st @ new"
     "follows provs capability (health st) rest new"
     "health st' = healthAt (health st) new"
     "\<forall>before nm out later. new = before @ (nm, out) # later \<longrightarrow>
           eligible provs (healthAt (health st) before) capability nm"
    by blast
  from new(2) skip(1) have "follows provs capability (health st) (nm # rest) new" by simp
  with new(1,3,4) show ?case by blast
next
  case (success nm rest st p r w')
  show ?case
  proof (intro exI[of _ "[(nm, Returned r)]"] conjI allI impI)
    show "invoked (st\<lparr>world := w', invoked := invoked st @ [(nm, Returned r)]\<rparr>) =
          invoked st @ [(nm, Returned r)]" by simp
    show "follows provs capability (health st) (nm # rest) [(nm, Returned r)]"
      using success(1,4) by simp
    show "health (st\<lparr>world := w', invoked := invoked st @ [(nm, Returned r)]\<rparr>) =
          healthAt (health st) [(nm, Returned r)]" by simp
  next
    fix before nm' out later
    assume "[(nm, Returned r)] = before @ (nm', out) # later"
    then have "before = []" "nm' = nm" by (auto simp: Cons_eq_append_conv)
    with success(1) show "eligible provs (healthAt (health st) before) capability nm'" by simp
  qed
next
  case (failure nm rest st p r w' res st')
  note IH = failure(5)[simplified]
  from IH obtain new where new: "invoked st' = invoked st @ (nm, Returned r) # new"
     "follows provs capability (health st) rest new"
     "health st' = healthAt (health st) new"
     "\<forall>before nm out later. new = before @ (nm, out) # later \<longrightarrow>
           eligible provs (healthAt (health st) before) capability nm"
    by blast
  show ?case
  proof (intro exI[of _ "(nm, Returned r) # new"] conjI allI impI)
    show "invoked st' = invoked st @ (nm, Returned r) # new" by (rule new(1))
    show "follows provs capability (health st) (nm # rest) ((nm, Returned r) # new)"
      using failure(1,4) new(2) by simp
    show "health st' = healthAt (health st) ((nm, Returned r) # new)"
      using new(3) by simp
  next
    fix before nm' out later
    assume a: "(nm, Returned r) # new = before @ (nm', out) # later"
    show "eligible provs (healthAt (health st) before) capability nm'"
    proof (cases before)
      case Nil
      with a failure(1) show ?thesis by simp
    next
      case (Cons b bs)
      with a have "b = (nm, Returned r)" "new = bs @ (nm', out) # later" by simp_all
      with new(4) Cons show ?thesis by simp
    qed
  qed
next
  case (throw nm rest st p e w' res st')
  note IH = throw(4)[simplified]
  from IH obtain new where new: "invoked st' = invoked st @ (nm, Threw e) # new"
     "follows provs capability (AList.update nm False (health st)) rest new"
     "health st' = healthAt (AList.update nm False (health st)) new"
     "\<forall>before nm' out later. new = before @ (nm', out) # later \<longrightarrow>
           eligible provs (healthAt (AList.update nm False (health st)) before) capability nm'"
    by blast
  show ?case
  proof (intro exI[of _ "(nm, Threw e) # new"] conjI allI impI)
    show "invoked st' = invoked st @ (nm, Threw e) # new" by (rule new(1))
    show "follows provs capability (health st) (nm # rest) ((nm, Threw e) # new)"
      using throw(1) new(2) by simp
    show "health st' = healthAt (health st) ((nm, Threw e) # new)"
      using new(3) by simp
  next
    fix before nm' out later
    assume a: "(nm, Threw e) # new = before @ (nm', out) # later"
    show "eligible provs (healthAt (health st) before) capability nm'"
    proof (cases before)
      case Nil
      with a throw(1) show ?thesis by simp
    next
      case (Cons b bs)
      with a have "b = (nm, Threw e)" "new = bs @ (nm', out) # later" by simp_all
      with new(4) Cons show ?thesis by simp
    qed
  qed
qed

text \<open>
  C1. A fallback run follows the priority list, for every list. Walking the list from
  the health map the run started with reproduces the call log exactly: a name is called
  when, at that point of the run, it is registered, its health entry is \<open>True\<close> and its
  capability entry for the operation is \<open>True\<close>; any other name is passed over; a throw
  marks the name unhealthy for the rest of the walk; the first success ends the run. So
  every provider called was registered, healthy at the time of the call (hence also
  before the run, and not thrown earlier in it) and capable; the calls are a subsequence
  of the priority list filtered by the three tests, a prefix of it when the list has no
  repeated name, and the whole of it when such a run ends without a success. The health
  map after the run is the one before it with the throwers marked. The eight public
  operations are this run with their own method and capability key.
\<close>

theorem fallback_follows_priority:
  "follows (providers f) capability (healthStatus f) (providerPriority f)
     (calls (executeWithFallback clock meth capability f w))
   \<and> (\<forall>before nm out later.
         calls (executeWithFallback clock meth capability f w) = before @ (nm, out) # later \<longrightarrow>
         map_of (providers f) nm \<noteq> None
         \<and> map_of (healthAt (healthStatus f) before) nm = Some True
         \<and> capabilityAt (getProviderCapabilities nm) capability
         \<and> map_of (healthStatus f) nm = Some True
         \<and> (\<forall>e. (nm, Threw e) \<notin> set before))
   \<and> healthStatus (factory (executeWithFallback clock meth capability f w)) =
       healthAt (healthStatus f) (calls (executeWithFallback clock meth capability f w))
   \<and> subseq (map fst (calls (executeWithFallback clock meth capability f w)))
       (filter (eligible (providers f) (healthStatus f) capability) (providerPriority f))
   \<and> (\<forall>nm \<in> fst ` set (calls (executeWithFallback clock meth capability f w)).
         map_of (providers f) nm \<noteq> None \<and> map_of (healthStatus f) nm = Some True
         \<and> capabilityAt (getProviderCapabilities nm) capability)
   \<and> (distinct (providerPriority f) \<longrightarrow>
         prefix (map fst (calls (executeWithFallback clock meth capability f w)))
           (filter (eligible (providers f) (healthStatus f) capability) (providerPriority f))
         \<and> (\<not> success (response (executeWithFallback clock meth capability f w)) \<longrightarrow>
              map fst (calls (executeWithFallback clock meth capability f w)) =
              filter (eligible (providers f) (healthStatus f) capability) (providerPriority f)))
   \<and> serve clock r = executeWithFallback clock (invoke r) (capabilityOf r)"
proof -
  let ?E = "filter (eligible (providers f) (healthStatus f) capability) (providerPriority f)"
  let ?a = "executeWithFallback clock meth capability f w"
  obtain res st where
    run: "fallbackLoop meth capability (providers f) (providerPriority f)
        \<lparr>errors = [], health = healthStatus f, world = w, invoked = []\<rparr> = (res, st)"
    and ex: "?a =
       \<lparr>response = (case res of Some r \<Rightarrow> r | None \<Rightarrow> allFailed clock (errors st) (world st)),
        factory = f\<lparr>healthStatus := health st\<rparr>, after = world st, calls = invoked st\<rparr>"
    by (rule execute_run)
  have c: "calls ?a = invoked st" by (simp add: ex)
  from loop_follows[OF run] have
    fol: "follows (providers f) capability (healthStatus f) (providerPriority f) (invoked st)"
    and hl: "health st = healthAt (healthStatus f) (invoked st)"
    and te: "\<forall>before nm out later. invoked st = before @ (nm, out) # later \<longrightarrow>
           eligible (providers f) (healthAt (healthStatus f) before) capability nm"
    by auto
  from loop_order[OF run] have
    ss: "subseq (map fst (invoked st)) ?E"
    and pf: "distinct (providerPriority f) \<longrightarrow> prefix (map fst (invoked st)) ?E"
    and al: "distinct (providerPriority f) \<longrightarrow> res = None \<longrightarrow> map fst (invoked st) = ?E"
    by auto
  from loop_shape[OF run] have sc: "\<forall>r. res = Some r \<longrightarrow> success r" by blast
  have none: "\<not> success (response ?a) \<Longrightarrow> res = None"
    using sc by (cases res) (auto simp: ex)
  have el: "\<forall>nm \<in> fst ` set (invoked st).
         map_of (providers f) nm \<noteq> None \<and> map_of (healthStatus f) nm = Some True
         \<and> capabilityAt (getProviderCapabilities nm) capability"
  proof
    fix nm assume "nm \<in> fst ` set (invoked st)"
    then have "nm \<in> set (map fst (invoked st))" by simp
    with ss have "nm \<in> set ?E" by (rule subseq_member)
    then show "map_of (providers f) nm \<noteq> None \<and> map_of (healthStatus f) nm = Some True
         \<and> capabilityAt (getProviderCapabilities nm) capability"
      by (simp add: eligible_def has_def)
  qed
  have at: "\<forall>before nm out later. invoked st = before @ (nm, out) # later \<longrightarrow>
         map_of (providers f) nm \<noteq> None
         \<and> map_of (healthAt (healthStatus f) before) nm = Some True
         \<and> capabilityAt (getProviderCapabilities nm) capability
         \<and> map_of (healthStatus f) nm = Some True
         \<and> (\<forall>e. (nm, Threw e) \<notin> set before)"
  proof (intro allI impI)
    fix before nm out later
    assume split: "invoked st = before @ (nm, out) # later"
    with te have e: "eligible (providers f) (healthAt (healthStatus f) before) capability nm"
      by blast
    then have h: "map_of (healthAt (healthStatus f) before) nm = Some True"
      by (simp add: eligible_def)
    have nt: "\<forall>e. (nm, Threw e) \<notin> set before"
    proof (intro allI notI)
      fix e assume "(nm, Threw e) \<in> set before"
      then have "map_of (healthAt (healthStatus f) before) nm = Some False"
        by (rule healthAt_thrown)
      with h show False by simp
    qed
    from split have "nm \<in> fst ` set (invoked st)" by force
    with el have "map_of (healthStatus f) nm = Some True" by blast
    with e h nt show "map_of (providers f) nm \<noteq> None
         \<and> map_of (healthAt (healthStatus f) before) nm = Some True
         \<and> capabilityAt (getProviderCapabilities nm) capability
         \<and> map_of (healthStatus f) nm = Some True
         \<and> (\<forall>e. (nm, Threw e) \<notin> set before)"
      by (simp add: eligible_def has_def)
  qed
  have hs: "healthStatus (factory ?a) = healthAt (healthStatus f) (calls ?a)"
    using hl by (simp add: ex)
  have d: "distinct (providerPriority f) \<longrightarrow>
         prefix (map fst (calls ?a)) ?E
         \<and> (\<not> success (response ?a) \<longrightarrow> map fst (calls ?a) = ?E)"
    using pf al none unfolding c by blast
  note fol' = fol[folded c] and at' = at[folded c] and ss' = ss[folded c]
    and el' = el[folded c]
  show ?thesis
  proof (intro conjI)
    show "serve clock r = executeWithFallback clock (invoke r) (capabilityOf r)"
      by (rule serve_execute)
  qed (rule fol' at' hs ss' el' d)+
qed

theorem fallback_follows_priority_witness:
  "providerPriority repeatedFirst = [Polygon, Polygon, EODHD]
   \<and> calls (executeWithFallback tick (invoke (GetQuote ''SPY'')) KeyQuote repeatedFirst 7) =
       [(Polygon, Threw ''TypeError: fetch failed'')] @
       (EODHD, Returned \<lparr>data = Payload (), provider = ''EODHD'', timestamp = 9,
                           success = True, error = None\<rparr>) # []
   \<and> follows (providers repeatedFirst) KeyQuote (healthStatus repeatedFirst)
         (providerPriority repeatedFirst)
         (calls (executeWithFallback tick (invoke (GetQuote ''SPY'')) KeyQuote repeatedFirst 7))
   \<and> map_of (healthAt (healthStatus repeatedFirst)
         [(Polygon, Threw ''TypeError: fetch failed'') :: ProviderName \<times> unit outcome]) EODHD
       = Some True
   \<and> map_of (healthAt (healthStatus repeatedFirst)
         [(Polygon, Threw ''TypeError: fetch failed'') :: ProviderName \<times> unit outcome]) Polygon
       = Some False
   \<and> healthStatus (factory
         (executeWithFallback tick (invoke (GetQuote ''SPY'')) KeyQuote repeatedFirst 7)) =
       [(Polygon, False), (EODHD, True)]
   \<and> distinct (providerPriority downFactory)
   \<and> \<not> success (response (executeWithFallback tick (invoke (GetHoldings ''SPY'')) KeyHoldings downFactory 0))
   \<and> EODHD \<in> fst ` set (calls (executeWithFallback tick (invoke (GetHoldings ''SPY'')) KeyHoldings downFactory 0))
   \<and> map_of (providers downFactory) EODHD \<noteq> None
   \<and> map_of (healthStatus downFactory) EODHD = Some True
   \<and> capabilityAt (getProviderCapabilities EODHD) KeyHoldings
   \<and> providerPriority downFactory = [Polygon, EODHD]
   \<and> map fst (calls (executeWithFallback tick (invoke (GetHoldings ''SPY'')) KeyHoldings downFactory 0)) = [EODHD]
   \<and> filter (eligible (providers downFactory) (healthStatus downFactory) KeyHoldings)
         (providerPriority downFactory) = [EODHD]"
proof -
  let ?b = "executeWithFallback tick (invoke (GetQuote ''SPY'')) KeyQuote repeatedFirst 7"
  let ?t = "(Polygon, Threw ''TypeError: fetch failed'') :: ProviderName \<times> unit outcome"
  let ?r = "\<lparr>data = Payload (), provider = ''EODHD'', timestamp = 9,
              success = True, error = None\<rparr> :: unit ProviderResponse"
  note U = fallback_follows_priority[of repeatedFirst KeyQuote tick "invoke (GetQuote ''SPY'')" 7
             "GetQuote ''SPY''"]
  have q: "providerPriority repeatedFirst = [Polygon, Polygon, EODHD]" by code_simp
  have l: "calls ?b = [?t] @ (EODHD, Returned ?r) # []" by code_simp
  from U have fo: "follows (providers repeatedFirst) KeyQuote (healthStatus repeatedFirst)
         (providerPriority repeatedFirst) (calls ?b)" by blast
  from U l have h1: "map_of (healthAt (healthStatus repeatedFirst) [?t]) EODHD = Some True"
    by blast
  have h2: "map_of (healthAt (healthStatus repeatedFirst) [?t]) Polygon = Some False"
    by (simp add: update_conv')
  from U have "healthStatus (factory ?b) = healthAt (healthStatus repeatedFirst) (calls ?b)"
    by blast
  also have "\<dots> = [(Polygon, False), (EODHD, True)]"
    unfolding l by (simp add: repeatedFirst_def brokenFirst_def setProviderPriority_def)
  finally have h3: "healthStatus (factory ?b) = [(Polygon, False), (EODHD, True)]" .
  let ?a = "executeWithFallback tick (invoke (GetHoldings ''SPY'')) KeyHoldings downFactory 0"
  let ?E = "filter (eligible (providers downFactory) (healthStatus downFactory) KeyHoldings)
              (providerPriority downFactory)"
  note T = fallback_follows_priority[of downFactory KeyHoldings tick
             "invoke (GetHoldings ''SPY'')" 0 "GetHoldings ''SPY''"]
  have p: "providerPriority downFactory = [Polygon, EODHD]" by code_simp
  have d: "distinct (providerPriority downFactory)" by code_simp
  have s: "\<not> success (response ?a)" by code_simp
  have c: "map fst (calls ?a) = [EODHD]" by code_simp
  have m: "EODHD \<in> fst ` set (calls ?a)" using c by (metis list.set_intros(1) set_map)
  from T d s have e: "map fst (calls ?a) = ?E" by blast
  with c have e': "?E = [EODHD]" by simp
  from T m have
    "map_of (providers downFactory) EODHD \<noteq> None
     \<and> map_of (healthStatus downFactory) EODHD = Some True
     \<and> capabilityAt (getProviderCapabilities EODHD) KeyHoldings" by blast
  with q l fo h1 h2 h3 p d s c m e' show ?thesis by blast
qed

text \<open>
  C2. First success wins: when the log of a fallback run holds a call that returned a
  result with \<open>success = True\<close>, that call is the last one of the run (no provider is
  called after it), every call before it failed, and the run returns that very result.
\<close>

theorem first_success_wins:
  assumes "calls (executeWithFallback clock meth capability f w) = before @ (nm, Returned r) # later"
    and "success r"
  shows "later = []
    \<and> response (executeWithFallback clock meth capability f w) = r
    \<and> list_all failed before"
proof -
  obtain res st where
    run: "fallbackLoop meth capability (providers f) (providerPriority f)
        \<lparr>errors = [], health = healthStatus f, world = w, invoked = []\<rparr> = (res, st)"
    and ex: "executeWithFallback clock meth capability f w =
       \<lparr>response = (case res of Some r \<Rightarrow> r | None \<Rightarrow> allFailed clock (errors st) (world st)),
        factory = f\<lparr>healthStatus := health st\<rparr>, after = world st, calls = invoked st\<rparr>"
    by (rule execute_run)
  from loop_shape[OF run] obtain pre where
    pre: "list_all failed pre"
    and none: "res = None \<longrightarrow> invoked st = pre"
    and some: "\<forall>r'. res = Some r' \<longrightarrow> success r' \<and> (\<exists>nm'. invoked st = pre @ [(nm', Returned r')])"
    by auto
  from assms(1) have log: "invoked st = before @ (nm, Returned r) # later"
    by (simp add: ex)
  have notpre: "(nm, Returned r) \<notin> set pre"
    using pre assms(2) by (auto simp: list_all_iff)
  show ?thesis
  proof (cases res)
    case None
    with none log have "pre = before @ (nm, Returned r) # later" by simp
    then have "(nm, Returned r) \<in> set pre" by simp
    with notpre show ?thesis by contradiction
  next
    case (Some r')
    with some obtain nm' where l: "invoked st = pre @ [(nm', Returned r')]" by blast
    show ?thesis
    proof (cases later rule: rev_cases)
      case Nil
      with log l have "before = pre" "r = r'" by auto
      with Nil Some pre show ?thesis by (simp add: ex)
    next
      case (snoc ys y)
      with log l have "pre = before @ (nm, Returned r) # ys" by simp
      then have "(nm, Returned r) \<in> set pre" by simp
      with notpre show ?thesis by contradiction
    qed
  qed
qed

theorem first_success_wins_witness:
  "calls (executeWithFallback tick (invoke (GetQuote ''SPY'')) KeyQuote upFactory 0) =
     [] @ (Polygon, Returned \<lparr>data = Payload (), provider = ''Polygon.io'', timestamp = 1,
                                success = True, error = None\<rparr>) # []
   \<and> success \<lparr>data = Payload (), provider = ''Polygon.io'', timestamp = 1,
                 success = True, error = None\<rparr>
   \<and> providerPriority upFactory = [Polygon, EODHD]
   \<and> eligible (providers upFactory) (healthStatus upFactory) KeyQuote EODHD
   \<and> response (executeWithFallback tick (invoke (GetQuote ''SPY'')) KeyQuote upFactory 0) =
       \<lparr>data = Payload (), provider = ''Polygon.io'', timestamp = 1, success = True, error = None\<rparr>"
proof -
  let ?r = "\<lparr>data = Payload (), provider = ''Polygon.io'', timestamp = 1,
              success = True, error = None\<rparr> :: unit ProviderResponse"
  let ?a = "executeWithFallback tick (invoke (GetQuote ''SPY'')) KeyQuote upFactory 0"
  have c: "calls ?a = [] @ (Polygon, Returned ?r) # []" by code_simp
  have s: "success ?r" by simp
  have p: "providerPriority upFactory = [Polygon, EODHD]" by code_simp
  have e: "eligible (providers upFactory) (healthStatus upFactory) KeyQuote EODHD"
    by (simp add: eligible_def has_def upFactory_def newETFProviderFactory_def
          initializeProviders_def setDefaultPriority_def register_def twoKeys_def truthyKey_def)
  from first_success_wins[OF c s] have "response ?a = ?r" by blast
  with c s p e show ?thesis by blast
qed

text \<open>
  C4. A domain failure costs no health. When an eligible provider returns a result with
  \<open>success = False\<close>, the loop goes on with the rest of the list from a state that
  differs only in the error accumulator (plus the world the call left and the call log);
  the health map is the same. Over a whole run, the health entry of every provider that
  did not throw is what it was, and a run without a throw leaves the whole map unchanged.
\<close>

theorem domain_failure_keeps_health:
  "(eligible (providers f) (health st) capability nm
      \<and> map_of (providers f) nm = Some p
      \<and> meth p (world st) = (Returned r, w') \<and> \<not> success r \<longrightarrow>
      fallbackLoop meth capability (providers f) (nm # rest) st =
      fallbackLoop meth capability (providers f) rest
        (st\<lparr>errors := errors st @ [failureMessage nm r], world := w',
            invoked := invoked st @ [(nm, Returned r)]\<rparr>)
      \<and> health (st\<lparr>errors := errors st @ [failureMessage nm r], world := w',
            invoked := invoked st @ [(nm, Returned r)]\<rparr>) = health st)
   \<and> ((\<forall>e. (x, Threw e) \<notin> set (calls (executeWithFallback clock meth capability f w))) \<longrightarrow>
        map_of (healthStatus (factory (executeWithFallback clock meth capability f w))) x =
        map_of (healthStatus f) x)
   \<and> (\<not> list_ex threw (calls (executeWithFallback clock meth capability f w)) \<longrightarrow>
        healthStatus (factory (executeWithFallback clock meth capability f w)) = healthStatus f)"
proof -
  obtain res st0 where
    run: "fallbackLoop meth capability (providers f) (providerPriority f)
        \<lparr>errors = [], health = healthStatus f, world = w, invoked = []\<rparr> = (res, st0)"
    and ex: "executeWithFallback clock meth capability f w =
       \<lparr>response = (case res of Some r \<Rightarrow> r | None \<Rightarrow> allFailed clock (errors st0) (world st0)),
        factory = f\<lparr>healthStatus := health st0\<rparr>, after = world st0, calls = invoked st0\<rparr>"
    by (rule execute_run)
  from loop_health[OF run] have
    a: "\<forall>x. (\<forall>e. (x, Threw e) \<notin> set (invoked st0)) \<longrightarrow>
          map_of (health st0) x = map_of (healthStatus f) x"
    and b: "\<not> list_ex threw (invoked st0) \<longrightarrow> health st0 = healthStatus f"
    by auto
  have c: "eligible (providers f) (health st) capability nm
      \<and> map_of (providers f) nm = Some p
      \<and> meth p (world st) = (Returned r, w') \<and> \<not> success r \<longrightarrow>
      fallbackLoop meth capability (providers f) (nm # rest) st =
      fallbackLoop meth capability (providers f) rest
        (st\<lparr>errors := errors st @ [failureMessage nm r], world := w',
            invoked := invoked st @ [(nm, Returned r)]\<rparr>)"
    using loop_failure[where meth=meth and provs="providers f" and st=st and nm=nm and p=p
        and r=r and w'=w' and capability=capability and rest=rest]
    by blast
  from a b c show ?thesis by (simp add: ex)
qed


theorem domain_failure_keeps_health_witness:
  "eligible (providers downFactory) (healthStatus downFactory) KeyQuote Polygon
   \<and> map_of (providers downFactory) Polygon = Some (PolygonProvider tick networkDown ''pk'')
   \<and> invoke (GetQuote ''SPY'') (PolygonProvider tick networkDown ''pk'') 0 =
        (Returned \<lparr>data = JSEmptyObject, provider = ''Polygon.io'', timestamp = 1,
            success = False,
            error = Some ''Failed to fetch quote: Error: HTTP 500: Internal Server Error - ''\<rparr>, 1)
   \<and> (\<forall>e. (Polygon, Threw e) \<notin>
          set (calls (executeWithFallback tick (invoke (GetQuote ''SPY'')) KeyQuote downFactory 0)))
   \<and> \<not> list_ex threw
          (calls (executeWithFallback tick (invoke (GetQuote ''SPY'')) KeyQuote downFactory 0))
   \<and> map fst (calls (executeWithFallback tick (invoke (GetQuote ''SPY'')) KeyQuote downFactory 0))
        = [Polygon, EODHD]
   \<and> map_of (healthStatus (factory
          (executeWithFallback tick (invoke (GetQuote ''SPY'')) KeyQuote downFactory 0))) Polygon
        = Some True
   \<and> healthStatus (factory
          (executeWithFallback tick (invoke (GetQuote ''SPY'')) KeyQuote downFactory 0))
        = healthStatus downFactory"
proof -
  let ?a = "executeWithFallback tick (invoke (GetQuote ''SPY'')) KeyQuote downFactory 0"
  let ?p = "PolygonProvider tick networkDown ''pk'' :: (unit, nat) IETFDataProvider"
  let ?r = "\<lparr>data = JSEmptyObject, provider = ''Polygon.io'', timestamp = 1,
            success = False,
            error = Some ''Failed to fetch quote: Error: HTTP 500: Internal Server Error - ''\<rparr>
            :: unit ProviderResponse"
  let ?st = "\<lparr>errors = [], health = healthStatus downFactory, world = 0 :: nat,
              invoked = [] :: (ProviderName \<times> unit outcome) list\<rparr>"
  note T = domain_failure_keeps_health[of downFactory ?st KeyQuote Polygon ?p
      "invoke (GetQuote ''SPY'')" ?r 1 "[EODHD]" Polygon tick 0]
  have e: "eligible (providers downFactory) (healthStatus downFactory) KeyQuote Polygon"
    by (simp add: eligible_def scenario_defs)
  have m: "map_of (providers downFactory) Polygon = Some ?p"
    by (simp add: scenario_defs)
  have i: "invoke (GetQuote ''SPY'') ?p 0 = (Returned ?r, 1)"
    by code_simp
  have c: "calls ?a = [(Polygon, Returned ?r),
      (EODHD, Returned \<lparr>data = JSEmptyObject, provider = ''EODHD'', timestamp = 2,
            success = False,
            error = Some ''Failed to fetch quote: Error: HTTP 500: Internal Server Error - ''\<rparr>)]"
    by code_simp
  have n: "\<forall>e. (Polygon, Threw e) \<notin> set (calls ?a)" unfolding c by simp
  have l: "\<not> list_ex threw (calls ?a)" unfolding c by simp
  have o: "map fst (calls ?a) = [Polygon, EODHD]" unfolding c by simp
  from T n have h1: "map_of (healthStatus (factory ?a)) Polygon =
      map_of (healthStatus downFactory) Polygon" by blast
  have "map_of (healthStatus downFactory) Polygon = Some True" by (simp add: scenario_defs)
  with h1 have h1': "map_of (healthStatus (factory ?a)) Polygon = Some True" by simp
  from T l have h2: "healthStatus (factory ?a) = healthStatus downFactory" by blast
  from e m i n l o h1' h2 show ?thesis by blast
qed

subsection \<open>Health across operations\<close>




lemma foldl_update_lookup:
  "map_of (foldl (\<lambda>m (k, b). AList.update k b m) h kvs) x =
     (case map_of (rev kvs) x of Some b \<Rightarrow> Some b | None \<Rightarrow> map_of h x)"
proof (induction kvs arbitrary: h)
  case Nil
  then show ?case by simp
next
  case (Cons kv kvs)
  obtain k b where kv: "kv = (k, b)" by (cases kv)
  show ?case
    by (simp add: kv Cons.IH update_conv' map_add_def split: option.splits)
qed

lemma healthCheck_lookup:
  assumes "map_of (providers g) nm \<noteq> None"
    and "\<forall>p. (nm, p) \<in> set (providers g) \<longrightarrow> config p \<noteq> None"
  shows "map_of (healthStatus (snd (healthCheck g))) nm = Some True"
    and "map_of (fst (healthCheck g)) nm = Some True"
proof -
  let ?res = "map (\<lambda>(nm, p). (nm, config p \<noteq> None)) (providers g)"
  from assms(1) obtain p0 where "(nm, p0) \<in> set (providers g)"
    by (auto dest: map_of_SomeD)
  then have "(nm, config p0 \<noteq> None) \<in> set (rev ?res)" by force
  then have "nm \<in> fst ` set (rev ?res)" by force
  then obtain b where b: "map_of (rev ?res) nm = Some b"
    by (metis domD dom_map_of_conv_image_fst)
  then have "(nm, b) \<in> set (rev ?res)" by (rule map_of_SomeD)
  then obtain p where "(nm, p) \<in> set (providers g)" "b = (config p \<noteq> None)" by auto
  with assms(2) have "b" by simp
  with b show "map_of (healthStatus (snd (healthCheck g))) nm = Some True"
    and "map_of (fst (healthCheck g)) nm = Some True"
    by (simp_all add: healthCheck_def Let_def foldl_update_lookup)
qed







subsection \<open>The registry\<close>

lemma providers_new:
  "providers (newETFProviderFactory clock remote creds) =
     map (\<lambda>nm. (nm, construct clock remote nm (the (credentialFor creds nm))))
       (filter (\<lambda>nm. truthyKey (credentialFor creds nm))
          [Polygon, Finnhub, EODHD, FMP, AlphaVantage])"
  by (simp add: newETFProviderFactory_def setDefaultPriority_def initializeProviders_def
        register_def Let_def)

lemma health_new:
  "healthStatus (newETFProviderFactory clock remote creds) =
     map (\<lambda>nm. (nm, True))
       (filter (\<lambda>nm. truthyKey (credentialFor creds nm))
          [Polygon, Finnhub, EODHD, FMP, AlphaVantage])"
  by (simp add: newETFProviderFactory_def setDefaultPriority_def initializeProviders_def
        register_def Let_def)

lemma construct_config: "config (construct clock remote nm key) \<noteq> None"
  by (cases nm)
     (simp_all add: PolygonProvider_def FinnhubProvider_def EODHDProvider_def FMPProvider_def
        AlphaVantageProvider_def)

lemma construct_name: "name (construct clock remote nm key) = className nm"
  by (cases nm)
     (simp_all add: PolygonProvider_def FinnhubProvider_def EODHDProvider_def FMPProvider_def
        AlphaVantageProvider_def)

lemma new_entries:
  "(nm, p) \<in> set (providers (newETFProviderFactory clock remote creds)) \<Longrightarrow>
   \<exists>key. p = construct clock remote nm key"
  unfolding providers_new by auto

lemma new_distinct:
  "distinct (map fst (providers (newETFProviderFactory clock remote creds)))"
  unfolding providers_new by (simp add: comp_def)

subsection \<open>What the operations leave alone\<close>

lemma execute_frame:
  "providers (factory (executeWithFallback clock meth capability f w)) = providers f"
  "providerPriority (factory (executeWithFallback clock meth capability f w)) = providerPriority f"
  by (simp_all add: executeWithFallback_def split: prod.splits)

lemma healthCheck_frame:
  "providers (snd (healthCheck f)) = providers f"
  "providerPriority (snd (healthCheck f)) = providerPriority f"
  by (simp_all add: healthCheck_def Let_def)

lemma step_providers: "providers (fst (step clock op f w)) = providers f"
  by (cases op)
     (simp_all add: serve_execute execute_frame healthCheck_frame setProviderPriority_def Let_def)

lemma step_priority:
  "\<forall>L. op \<noteq> SetProviderPriority L \<Longrightarrow>
   providerPriority (fst (step clock op f w)) = providerPriority f"
  by (cases op) (simp_all add: serve_execute execute_frame healthCheck_frame Let_def)

lemma step_invariant:
  assumes "priorityRegistered f"
  shows "priorityRegistered (fst (step clock op f w))"
proof (cases "\<exists>L. op = SetProviderPriority L")
  case True
  then show ?thesis
    by (auto simp: priorityRegistered_def setProviderPriority_def list_all_iff)
next
  case False
  then have "\<forall>L. op \<noteq> SetProviderPriority L" by blast
  from step_priority[OF this, of clock f w] step_providers[of clock op f w] assms
  show ?thesis
    by (simp add: priorityRegistered_def)
qed

lemma run_invariant:
  "priorityRegistered f \<Longrightarrow> priorityRegistered (fst (run clock ops f w))"
proof (induction ops arbitrary: f w)
  case Nil
  then show ?case by simp
next
  case (Cons op ops)
  obtain f1 w1 c1 where s: "step clock op f w = (f1, w1, c1)"
    by (cases "step clock op f w") auto
  obtain f2 w2 c2 where r: "run clock ops f1 w1 = (f2, w2, c2)"
    by (cases "run clock ops f1 w1") auto
  from step_invariant[OF Cons.prems, of clock op w] s have "priorityRegistered f1" by simp
  from Cons.IH[OF this, of w1] r show ?case
    by (simp add: s)
qed

lemma run_providers: "providers (fst (run clock ops f w)) = providers f"
proof (induction ops arbitrary: f w)
  case Nil
  then show ?case by simp
next
  case (Cons op ops)
  obtain f1 w1 c1 where s: "step clock op f w = (f1, w1, c1)"
    by (cases "step clock op f w") auto
  obtain f2 w2 c2 where r: "run clock ops f1 w1 = (f2, w2, c2)"
    by (cases "run clock ops f1 w1") auto
  from step_providers[of clock op f w] s have "providers f1 = providers f" by simp
  with Cons.IH[of f1 w1] r show ?case
    by (simp add: s)
qed

text \<open>
  C9. The priority list holds registered names only. The constructor installs the default
  order \<^verbatim>\<open>polygon, eodhd, fmp, finnhub, alpha-vantage\<close> filtered to the registered
  names; \<^verbatim>\<open>setProviderPriority\<close> replaces the list by its argument filtered to the
  registered names, in the given order; no other operation changes the list, and no
  operation changes the registry. So in every state reached from the constructor by any
  sequence of operations, every name of the list is registered.
\<close>

theorem priority_list_registered:
  "providerPriority (newETFProviderFactory clock remote creds) =
     filter (has (providers (newETFProviderFactory clock remote creds)))
       [Polygon, EODHD, FMP, Finnhub, AlphaVantage]
   \<and> providerPriority (setProviderPriority L f) = filter (has (providers f)) L
   \<and> providers (setProviderPriority L f) = providers f
   \<and> healthStatus (setProviderPriority L f) = healthStatus f
   \<and> ((\<forall>L'. op \<noteq> SetProviderPriority L') \<longrightarrow>
        providerPriority (fst (step clock op f w)) = providerPriority f)
   \<and> providers (fst (step clock op f w)) = providers f
   \<and> (\<forall>nm \<in> set (providerPriority (fst (run clock ops
          (newETFProviderFactory clock remote creds) w))).
        has (providers (fst (run clock ops (newETFProviderFactory clock remote creds) w))) nm)"
proof -
  have new: "providerPriority (newETFProviderFactory clock remote creds) =
     filter (has (providers (newETFProviderFactory clock remote creds)))
       [Polygon, EODHD, FMP, Finnhub, AlphaVantage]"
    by (simp add: newETFProviderFactory_def setDefaultPriority_def)
  then have "priorityRegistered (newETFProviderFactory clock remote creds)"
    unfolding priorityRegistered_def list_all_iff by auto
  from run_invariant[OF this, of clock ops w]
  have inv: "\<forall>nm \<in> set (providerPriority (fst (run clock ops
          (newETFProviderFactory clock remote creds) w))).
        has (providers (fst (run clock ops (newETFProviderFactory clock remote creds) w))) nm"
    by (simp add: priorityRegistered_def list_all_iff)
  have st: "(\<forall>L'. op \<noteq> SetProviderPriority L') \<longrightarrow>
        providerPriority (fst (step clock op f w)) = providerPriority f"
    using step_priority[of op clock f w] by blast
  from new inv st step_providers[of clock op f w] show ?thesis
    by (simp add: setProviderPriority_def)
qed

theorem priority_list_registered_witness:
  "(\<forall>L'. Fetch (GetQuote ''SPY'') \<noteq> SetProviderPriority L')
   \<and> providerPriority (fst (step tick (Fetch (GetQuote ''SPY'')) downFactory 0)) =
       providerPriority downFactory
   \<and> providerPriority downFactory = [Polygon, EODHD]
   \<and> providerPriority (fst (run tick [SetProviderPriority [EODHD, FMP, EODHD, Polygon]]
         (newETFProviderFactory tick networkDown twoKeys) 0)) = [EODHD, EODHD, Polygon]
   \<and> has (providers (fst (run tick [SetProviderPriority [EODHD, FMP, EODHD, Polygon]]
         (newETFProviderFactory tick networkDown twoKeys) 0))) EODHD"
proof -
  note T = priority_list_registered[where clock=tick and remote=networkDown and creds=twoKeys
      and L="[EODHD, FMP, EODHD, Polygon]" and f=downFactory
      and op="Fetch (GetQuote ''SPY'')" and w=0
      and ops="[SetProviderPriority [EODHD, FMP, EODHD, Polygon]]"]
  have n: "\<forall>L'. Fetch (GetQuote ''SPY'') \<noteq> SetProviderPriority L'" by simp
  have d: "providerPriority downFactory = [Polygon, EODHD]" by code_simp
  have r: "providerPriority (fst (run tick [SetProviderPriority [EODHD, FMP, EODHD, Polygon]]
         (newETFProviderFactory tick networkDown twoKeys) 0)) = [EODHD, EODHD, Polygon]"
    by code_simp
  then have m: "EODHD \<in> set (providerPriority (fst (run tick
         [SetProviderPriority [EODHD, FMP, EODHD, Polygon]]
         (newETFProviderFactory tick networkDown twoKeys) 0)))" by simp
  from T n have a: "providerPriority (fst (step tick (Fetch (GetQuote ''SPY'')) downFactory 0)) =
       providerPriority downFactory" by blast
  from T m have b: "has (providers (fst (run tick [SetProviderPriority [EODHD, FMP, EODHD, Polygon]]
         (newETFProviderFactory tick networkDown twoKeys) 0))) EODHD" by blast
  from n a d r b show ?thesis by blast
qed

subsection \<open>The health check\<close>

lemma update_fresh: "k \<notin> fst ` set h \<Longrightarrow> AList.update k b h = h @ [(k, b)]"
  by (induction h) auto

lemma foldl_update_fresh:
  "distinct (map fst (h @ kvs)) \<Longrightarrow>
   foldl (\<lambda>m (k, b). AList.update k b m) h kvs = h @ kvs"
proof (induction kvs arbitrary: h)
  case Nil
  then show ?case by simp
next
  case (Cons kv kvs)
  obtain k b where kv: "kv = (k, b)" by (cases kv)
  from Cons.prems have fresh: "k \<notin> fst ` set h" by (auto simp: kv)
  from Cons.prems have "distinct (map fst ((h @ [(k, b)]) @ kvs))" by (auto simp: kv)
  from Cons.IH[OF this] show ?case
    by (simp add: kv update_fresh[OF fresh])
qed

lemma healthCheck_result:
  assumes "distinct (map fst (providers f))"
    and "\<forall>(nm, p) \<in> set (providers f). config p \<noteq> None"
  shows "fst (healthCheck f) = map (\<lambda>nm. (nm, True)) (map fst (providers f))"
proof -
  let ?T = "map (\<lambda>nm. (nm, True)) (map fst (providers f))"
  have eq: "map (\<lambda>(nm, p). (nm, config p \<noteq> None)) (providers f) = ?T"
    using assms(2) by (induction "providers f") (auto simp: case_prod_beta)
  have "distinct (map fst ([] @ ?T))"
    using assms(1) by (simp add: comp_def)
  then have "foldl (\<lambda>m (k, b). AList.update k b m) [] ?T = [] @ ?T"
    by (rule foldl_update_fresh)
  then show ?thesis
    by (simp only: healthCheck_def Let_def fst_conv eq append_Nil)
qed

text \<open>
  C10. \<^verbatim>\<open>healthCheck\<close> marks every registered provider healthy, whatever the health
  map held before. For a factory whose registry is the one the constructor built (each
  entry an instance of one of the five classes, which all set \<^verbatim>\<open>config\<close>), the health
  entry of every registered name is \<open>True\<close> afterwards, the returned map is exactly the
  registered names, each sent to \<open>True\<close>, and the operation calls no provider and leaves
  the world, the registry and the priority list as they were.
\<close>

theorem healthCheck_marks_all_healthy:
  assumes "providers f = providers (newETFProviderFactory clock remote creds)"
  shows "(\<forall>nm. has (providers f) nm \<longrightarrow>
            map_of (healthStatus (snd (healthCheck f))) nm = Some True
            \<and> map_of (fst (healthCheck f)) nm = Some True)
    \<and> fst (healthCheck f) = map (\<lambda>nm. (nm, True)) (map fst (providers f))
    \<and> step clock' HealthCheck f w = (snd (healthCheck f), w, [])
    \<and> providers (snd (healthCheck f)) = providers f
    \<and> providerPriority (snd (healthCheck f)) = providerPriority f"
proof -
  have cfg: "\<forall>(nm, p) \<in> set (providers f). config p \<noteq> None"
  proof (intro ballI)
    fix x assume x: "x \<in> set (providers f)"
    obtain nm p where xp: "x = (nm, p)" by (cases x)
    with x have "(nm, p) \<in> set (providers (newETFProviderFactory clock remote creds))"
      by (simp add: assms)
    then obtain key where "p = construct clock remote nm key"
      by (auto dest: new_entries)
    with construct_config[of clock remote nm key]
    show "case x of (nm, p) \<Rightarrow> config p \<noteq> None" by (simp add: xp)
  qed
  have dis: "distinct (map fst (providers f))"
    unfolding assms by (rule new_distinct)
  have each: "map_of (healthStatus (snd (healthCheck f))) nm = Some True
            \<and> map_of (fst (healthCheck f)) nm = Some True" if "has (providers f) nm" for nm
  proof -
    from that have r: "map_of (providers f) nm \<noteq> None" by (simp add: has_def)
    from cfg have c: "\<forall>p. (nm, p) \<in> set (providers f) \<longrightarrow> config p \<noteq> None" by auto
    from healthCheck_lookup[OF r c] show ?thesis by simp
  qed
  from each healthCheck_result[OF dis cfg] show ?thesis
    by (simp add: healthCheck_frame)
qed

theorem healthCheck_marks_all_healthy_witness:
  "providers (downFactory\<lparr>healthStatus := [(Polygon, False), (EODHD, False)]\<rparr>) =
     providers (newETFProviderFactory tick networkDown twoKeys)
   \<and> has (providers (downFactory\<lparr>healthStatus := [(Polygon, False), (EODHD, False)]\<rparr>)) Polygon
   \<and> map_of (healthStatus (downFactory\<lparr>healthStatus := [(Polygon, False), (EODHD, False)]\<rparr>))
        Polygon = Some False
   \<and> map_of (healthStatus (snd (healthCheck
        (downFactory\<lparr>healthStatus := [(Polygon, False), (EODHD, False)]\<rparr>)))) Polygon = Some True
   \<and> fst (healthCheck (downFactory\<lparr>healthStatus := [(Polygon, False), (EODHD, False)]\<rparr>)) =
        [(Polygon, True), (EODHD, True)]"
proof -
  let ?f = "downFactory\<lparr>healthStatus := [(Polygon, False), (EODHD, False)]\<rparr>"
  have p: "providers ?f = providers (newETFProviderFactory tick networkDown twoKeys)"
    by (simp add: downFactory_def)
  note T = healthCheck_marks_all_healthy[OF p, of tick 0]
  have h: "has (providers ?f) Polygon" by (simp add: scenario_defs)
  have u: "map_of (healthStatus ?f) Polygon = Some False" by simp
  have m: "map (\<lambda>nm. (nm, True)) (map fst (providers ?f)) = [(Polygon, True), (EODHD, True)]"
    by (simp add: scenario_defs)
  from T h have a: "map_of (healthStatus (snd (healthCheck ?f))) Polygon = Some True" by blast
  from T m have b: "fst (healthCheck ?f) = [(Polygon, True), (EODHD, True)]" by simp
  from p h u a b show ?thesis by blast
qed

subsection \<open>The provider classes called directly\<close>



subsection \<open>Runs that call nobody\<close>

lemma loop_none_eligible:
  "\<forall>nm \<in> set L. \<not> eligible provs (health st) capability nm \<Longrightarrow>
   fallbackLoop meth capability provs L st = (None, st)"
  by (induction L) (simp_all add: loop_skip)

text \<open>
  C6, as the code has it. When no registered provider is capable of the operation (in
  particular when the registry is empty), the operation calls no provider, leaves the
  factory and the world as they were, and returns the ordinary synthetic failure with an
  empty message list: \<open>success = False\<close>, provider \<open>''factory''\<close>, data \<^verbatim>\<open>null\<close>, error
  \<open>''All providers failed. Errors: ''\<close>. There is no separate error for "no providers".
\<close>

theorem no_capable_provider_result:
  "((\<forall>nm. has (providers f) nm \<longrightarrow> \<not> capabilityAt (getProviderCapabilities nm) capability) \<longrightarrow>
      executeWithFallback clock meth capability f w =
        \<lparr>response = \<lparr>data = JSNull, provider = ''factory'', timestamp = clock w,
                      success = False, error = Some ''All providers failed. Errors: ''\<rparr>,
         factory = f, after = w, calls = []\<rparr>)
   \<and> (providers f = [] \<longrightarrow>
      executeWithFallback clock meth capability f w =
        \<lparr>response = \<lparr>data = JSNull, provider = ''factory'', timestamp = clock w,
                      success = False, error = Some ''All providers failed. Errors: ''\<rparr>,
         factory = f, after = w, calls = []\<rparr>)"
proof -
  have main: "executeWithFallback clock meth capability f w =
        \<lparr>response = \<lparr>data = JSNull, provider = ''factory'', timestamp = clock w,
                      success = False, error = Some ''All providers failed. Errors: ''\<rparr>,
         factory = f, after = w, calls = []\<rparr>"
    if "\<forall>nm. has (providers f) nm \<longrightarrow> \<not> capabilityAt (getProviderCapabilities nm) capability"
  proof -
    let ?st = "\<lparr>errors = [], health = healthStatus f, world = w,
                invoked = [] :: (ProviderName \<times> 'a outcome) list\<rparr>"
    from that have "\<forall>nm \<in> set (providerPriority f).
        \<not> eligible (providers f) (health ?st) capability nm"
      by (simp add: eligible_def)
    then have "fallbackLoop meth capability (providers f) (providerPriority f) ?st = (None, ?st)"
      by (rule loop_none_eligible)
    then show ?thesis
      by (simp add: executeWithFallback_def allFailed_def)
  qed
  have "providers f = [] \<Longrightarrow>
     \<forall>nm. has (providers f) nm \<longrightarrow> \<not> capabilityAt (getProviderCapabilities nm) capability"
    by (simp add: has_def)
  with main show ?thesis by blast
qed

theorem no_capable_provider_result_witness:
  "map fst (providers polygonOnly) = [Polygon]
   \<and> \<not> capabilityAt (getProviderCapabilities Polygon) KeyHoldings
   \<and> has (providers polygonOnly) Polygon
   \<and> response (executeWithFallback tick (invoke (GetHoldings ''SPY'')) KeyHoldings polygonOnly 3) =
        \<lparr>data = JSNull, provider = ''factory'', timestamp = 3, success = False,
         error = Some ''All providers failed. Errors: ''\<rparr>
   \<and> calls (executeWithFallback tick (invoke (GetHoldings ''SPY'')) KeyHoldings polygonOnly 3) = []
   \<and> providers emptyFactory = []
   \<and> response (executeWithFallback tick (invoke (GetQuote ''SPY'')) KeyQuote emptyFactory 3) =
        \<lparr>data = JSNull, provider = ''factory'', timestamp = 3, success = False,
         error = Some ''All providers failed. Errors: ''\<rparr>
   \<and> calls (executeWithFallback tick (invoke (GetQuote ''SPY'')) KeyQuote emptyFactory 3) = []"
proof -
  note T1 = no_capable_provider_result[where f=polygonOnly and capability=KeyHoldings
      and clock=tick and meth="invoke (GetHoldings ''SPY'')" and w=3]
  note T2 = no_capable_provider_result[where f=emptyFactory and capability=KeyQuote
      and clock=tick and meth="invoke (GetQuote ''SPY'')" and w=3]
  have h: "\<forall>nm. has (providers polygonOnly) nm \<longrightarrow>
        \<not> capabilityAt (getProviderCapabilities nm) KeyHoldings"
  proof (intro allI impI)
    fix nm assume "has (providers polygonOnly) nm"
    then have "nm = Polygon"
      by (cases nm) (simp_all add: polygonOnly_def polygonKey_def scenario_defs)
    then show "\<not> capabilityAt (getProviderCapabilities nm) KeyHoldings" by simp
  qed
  have p: "has (providers polygonOnly) Polygon"
    by (simp add: polygonOnly_def polygonKey_def scenario_defs)
  have e: "providers emptyFactory = []"
    by (simp add: emptyFactory_def scenario_defs)
  from T1 h have a: "executeWithFallback tick (invoke (GetHoldings ''SPY'')) KeyHoldings polygonOnly 3 =
        \<lparr>response = \<lparr>data = JSNull, provider = ''factory'', timestamp = tick 3,
                      success = False, error = Some ''All providers failed. Errors: ''\<rparr>,
         factory = polygonOnly, after = 3, calls = []\<rparr>" by blast
  from T2 e have b: "executeWithFallback tick (invoke (GetQuote ''SPY'')) KeyQuote emptyFactory 3 =
        \<lparr>response = \<lparr>data = JSNull, provider = ''factory'', timestamp = tick 3,
                      success = False, error = Some ''All providers failed. Errors: ''\<rparr>,
         factory = emptyFactory, after = 3, calls = []\<rparr>" by blast
  have k: "map fst (providers polygonOnly) = [Polygon]"
    by (simp add: polygonOnly_def polygonKey_def scenario_defs)
  from k p e show ?thesis unfolding a b by (simp add: tick_def)
qed

text \<open>
  C6 as stated fails: with an empty registry the operation does not end in an error of
  its own. It returns the very result an exhausted chain returns, the one a registry
  with only a holdings-incapable Polygon gives for holdings.
\<close>

theorem empty_registry_returns_ordinary_failure:
  "providers emptyFactory = []
   \<and> response (serve tick (GetQuote ''SPY'') emptyFactory 0) =
        \<lparr>data = JSNull, provider = ''factory'', timestamp = 0, success = False,
         error = Some ''All providers failed. Errors: ''\<rparr>
   \<and> response (serve tick (GetQuote ''SPY'') emptyFactory 0) =
       response (serve tick (GetHoldings ''SPY'') polygonOnly 0)
   \<and> response (serve tick (GetQuote ''SPY'') emptyFactory 0) = allFailed tick [] 0"
proof -
  have "providers emptyFactory = []" by (simp add: emptyFactory_def scenario_defs)
  moreover have "response (serve tick (GetQuote ''SPY'') emptyFactory 0) =
        \<lparr>data = JSNull, provider = ''factory'', timestamp = 0, success = False,
         error = Some ''All providers failed. Errors: ''\<rparr>" by code_simp
  moreover have "response (serve tick (GetQuote ''SPY'') emptyFactory 0) =
       response (serve tick (GetHoldings ''SPY'') polygonOnly 0)" by code_simp
  moreover have "response (serve tick (GetQuote ''SPY'') emptyFactory 0) = allFailed tick [] 0"
    by code_simp
  ultimately show ?thesis by blast
qed

subsection \<open>Blank symbols\<close>

lemma trim_blank: "(length (trim s) = 0) = (\<forall>c \<in> set s. isWhiteSpace c)"
proof
  assume "length (trim s) = 0"
  then have "dropWhile isWhiteSpace (rev (dropWhile isWhiteSpace s)) = []"
    by (simp add: trim_def)
  then have a: "\<forall>c \<in> set (dropWhile isWhiteSpace s). isWhiteSpace c"
    by (simp add: dropWhile_eq_Nil_conv)
  have "dropWhile isWhiteSpace s = []"
  proof (rule ccontr)
    assume n: "dropWhile isWhiteSpace s \<noteq> []"
    then have "\<not> isWhiteSpace (hd (dropWhile isWhiteSpace s))" by (rule hd_dropWhile)
    moreover from n have "hd (dropWhile isWhiteSpace s) \<in> set (dropWhile isWhiteSpace s)"
      by simp
    ultimately show False using a by blast
  qed
  then show "\<forall>c \<in> set s. isWhiteSpace c" by (simp add: dropWhile_eq_Nil_conv)
next
  assume "\<forall>c \<in> set s. isWhiteSpace c"
  then have "dropWhile isWhiteSpace s = []" by (simp add: dropWhile_eq_Nil_conv)
  then have "trim s = []"
    unfolding trim_def by (simp only: rev.simps dropWhile.simps)
  then show "length (trim s) = 0" by simp
qed

lemma validateSymbol_blank:
  "validateSymbol s = (if \<forall>c \<in> set s. isWhiteSpace c then Some ''Error: Symbol is required'' else None)"
  using trim_blank[of s] by (auto simp: validateSymbol_def)

lemma blank_direct:
  assumes "\<forall>c \<in> set s. isWhiteSpace c" and "symbolOf r = Some s"
  shows "\<exists>resp. invoke r (construct clock remote nm key) w = (Returned resp, w)
           \<and> \<not> success resp \<and> provider resp = className nm
           \<and> (capabilityAt (getProviderCapabilities nm) (capabilityOf r) \<longrightarrow>
                error resp = Some (failureLabel r @ ''Error: Symbol is required''))"
proof -
  have v: "validateSymbol s = Some ''Error: Symbol is required''"
    using assms(1) by (simp add: validateSymbol_blank)
  show ?thesis
    using assms(2) v
    by (cases nm; cases r)
       (simp_all add: provider_defs trySymbol_def unsupported_def createErrorResponse_def)
qed

lemma loop_all_fail:
  assumes run: "fallbackLoop meth capability provs L st = (res, st')"
    and fail: "\<forall>nm p. map_of provs nm = Some p \<longrightarrow>
                 (\<exists>resp. meth p w0 = (Returned resp, w0) \<and> \<not> success resp)"
  shows "world st = w0 \<longrightarrow>
           res = None \<and> world st' = w0 \<and> health st' = health st
           \<and> (\<exists>new. invoked st' = invoked st @ new
                \<and> map fst new = filter (eligible provs (health st) capability) L)"
  using run
proof (induction rule: loop_induct)
  case (Nil st)
  then show ?case by simp
next
  case (skip nm rest st res st')
  then show ?case by simp
next
  case (success nm rest st p r w')
  show ?case
  proof
    assume "world st = w0"
    with success(3) have "meth p w0 = (Returned r, w')" by simp
    moreover from fail success(2) obtain resp where
      "meth p w0 = (Returned resp, w0)" "\<not> success resp" by blast
    ultimately have "\<not> success r" by simp
    with success(4) show "Some r = None
        \<and> world (st\<lparr>world := w', invoked := invoked st @ [(nm, Returned r)]\<rparr>) = w0
        \<and> health (st\<lparr>world := w', invoked := invoked st @ [(nm, Returned r)]\<rparr>) = health st
        \<and> (\<exists>new. invoked (st\<lparr>world := w', invoked := invoked st @ [(nm, Returned r)]\<rparr>) =
                  invoked st @ new
              \<and> map fst new = filter (eligible provs (health st) capability) (nm # rest))"
      by contradiction
  qed
next
  case (failure nm rest st p r w' res st')
  show ?case
  proof
    assume w: "world st = w0"
    with failure(3) have "meth p w0 = (Returned r, w')" by simp
    moreover from fail failure(2) obtain resp where
      "meth p w0 = (Returned resp, w0)" "\<not> success resp" by blast
    ultimately have "w' = w0" by simp
    with failure(5) obtain new where
      a: "res = None" "world st' = w0" "health st' = health st"
      and n: "invoked st' = invoked st @ (nm, Returned r) # new"
        "map fst new = filter (eligible provs (health st) capability) rest"
      by auto
    have f: "filter (eligible provs (health st) capability) (nm # rest) =
             nm # filter (eligible provs (health st) capability) rest"
      using failure(1) by simp
    have "\<exists>new'. invoked st' = invoked st @ new'
            \<and> map fst new' = filter (eligible provs (health st) capability) (nm # rest)"
      unfolding f using n by (intro exI[of _ "(nm, Returned r) # new"]) simp
    with a show "res = None \<and> world st' = w0 \<and> health st' = health st
           \<and> (\<exists>new. invoked st' = invoked st @ new
                \<and> map fst new = filter (eligible provs (health st) capability) (nm # rest))"
      by blast
  qed
next
  case (throw nm rest st p e w' res st')
  show ?case
  proof
    assume w: "world st = w0"
    with throw(3) have "meth p w0 = (Threw e, w')" by simp
    moreover from fail throw(2) obtain resp where
      "meth p w0 = (Returned resp, w0)" "\<not> success resp" by blast
    ultimately show "res = None \<and> world st' = w0 \<and> health st' = health st
           \<and> (\<exists>new. invoked st' = invoked st @ new
                \<and> map fst new = filter (eligible provs (health st) capability) (nm # rest))"
      by simp
  qed
qed

text \<open>
  C7, as the code has it. For a symbol that is empty or all white space,
  \<^verbatim>\<open>validateSymbol\<close> throws. Every provider class, called directly with such a symbol,
  returns a failure result carrying its own name, without throwing and without touching
  the world (no network request); where the operation is network-backed the error text
  is the method's label followed by \<open>''Error: Symbol is required''\<close>. The factory does
  not validate: on a registry built by the constructor, and for every priority list, it
  walks the list and calls each eligible name, once for each time the name stands in the
  list; every call fails, the world and the health map are untouched, and the result
  is the synthetic failure of provider \<open>''factory''\<close>.
\<close>

theorem blank_symbol_fails_without_network:
  assumes "\<forall>c \<in> set s. isWhiteSpace c" and "symbolOf r = Some s"
  shows "validateSymbol s = Some ''Error: Symbol is required''
    \<and> (\<exists>resp. invoke r (construct clock remote nm key) w = (Returned resp, w)
           \<and> \<not> success resp \<and> provider resp = className nm
           \<and> (capabilityAt (getProviderCapabilities nm) (capabilityOf r) \<longrightarrow>
                error resp = Some (failureLabel r @ ''Error: Symbol is required'')))
    \<and> (providers f = providers (newETFProviderFactory clock remote creds) \<longrightarrow>
          after (serve clock r f w) = w
          \<and> \<not> success (response (serve clock r f w))
          \<and> provider (response (serve clock r f w)) = ''factory''
          \<and> list_all failed (calls (serve clock r f w))
          \<and> map fst (calls (serve clock r f w)) =
              filter (eligible (providers f) (healthStatus f) (capabilityOf r))
                (providerPriority f)
          \<and> healthStatus (factory (serve clock r f w)) = healthStatus f)"
proof -
  have v: "validateSymbol s = Some ''Error: Symbol is required''"
    using assms(1) by (simp add: validateSymbol_blank)
  note direct = blank_direct[OF assms, of clock remote nm key w]
  have agg: "after (serve clock r f w) = w
          \<and> \<not> success (response (serve clock r f w))
          \<and> provider (response (serve clock r f w)) = ''factory''
          \<and> list_all failed (calls (serve clock r f w))
          \<and> map fst (calls (serve clock r f w)) =
              filter (eligible (providers f) (healthStatus f) (capabilityOf r))
                (providerPriority f)
          \<and> healthStatus (factory (serve clock r f w)) = healthStatus f"
    if built: "providers f = providers (newETFProviderFactory clock remote creds)"
  proof -
    obtain res st where
      run: "fallbackLoop (invoke r) (capabilityOf r) (providers f) (providerPriority f)
          \<lparr>errors = [], health = healthStatus f, world = w, invoked = []\<rparr> = (res, st)"
      and ex: "executeWithFallback clock (invoke r) (capabilityOf r) f w =
         \<lparr>response = (case res of Some r \<Rightarrow> r | None \<Rightarrow> allFailed clock (errors st) (world st)),
          factory = f\<lparr>healthStatus := health st\<rparr>, after = world st, calls = invoked st\<rparr>"
      by (rule execute_run)
    have fail: "\<forall>nm p. map_of (providers f) nm = Some p \<longrightarrow>
                 (\<exists>resp. invoke r p w = (Returned resp, w) \<and> \<not> success resp)"
    proof (intro allI impI)
      fix nm p assume "map_of (providers f) nm = Some p"
      then have "(nm, p) \<in> set (providers (newETFProviderFactory clock remote creds))"
        unfolding built by (rule map_of_SomeD)
      then obtain key where "p = construct clock remote nm key"
        by (auto dest: new_entries)
      then show "\<exists>resp. invoke r p w = (Returned resp, w) \<and> \<not> success resp"
        using blank_direct[OF assms, of clock remote nm key w] by blast
    qed
    from loop_all_fail[OF run fail] have none: "res = None" and wst: "world st = w"
      and hst: "health st = healthStatus f"
      and ord: "map fst (invoked st) =
         filter (eligible (providers f) (healthStatus f) (capabilityOf r)) (providerPriority f)"
      by auto
    from loop_shape[OF run] none have fl: "list_all failed (invoked st)" by auto
    from none wst hst ord fl show ?thesis
      by (simp add: serve_execute ex allFailed_def)
  qed
  show ?thesis
  proof (intro conjI)
    show "validateSymbol s = Some ''Error: Symbol is required''" by (rule v)
    show "\<exists>resp. invoke r (construct clock remote nm key) w = (Returned resp, w)
           \<and> \<not> success resp \<and> provider resp = className nm
           \<and> (capabilityAt (getProviderCapabilities nm) (capabilityOf r) \<longrightarrow>
                error resp = Some (failureLabel r @ ''Error: Symbol is required''))"
      by (rule direct)
    show "providers f = providers (newETFProviderFactory clock remote creds) \<longrightarrow>
          after (serve clock r f w) = w
          \<and> \<not> success (response (serve clock r f w))
          \<and> provider (response (serve clock r f w)) = ''factory''
          \<and> list_all failed (calls (serve clock r f w))
          \<and> map fst (calls (serve clock r f w)) =
              filter (eligible (providers f) (healthStatus f) (capabilityOf r))
                (providerPriority f)
          \<and> healthStatus (factory (serve clock r f w)) = healthStatus f"
    proof
      assume "providers f = providers (newETFProviderFactory clock remote creds)"
      then show "after (serve clock r f w) = w
          \<and> \<not> success (response (serve clock r f w))
          \<and> provider (response (serve clock r f w)) = ''factory''
          \<and> list_all failed (calls (serve clock r f w))
          \<and> map fst (calls (serve clock r f w)) =
              filter (eligible (providers f) (healthStatus f) (capabilityOf r))
                (providerPriority f)
          \<and> healthStatus (factory (serve clock r f w)) = healthStatus f" by (rule agg)
    qed
  qed
qed

theorem blank_symbol_fails_without_network_witness:
  "list_all isWhiteSpace '' ''
   \<and> symbolOf (GetQuote '' '') = Some '' ''
   \<and> validateSymbol '' '' = Some ''Error: Symbol is required''
   \<and> capabilityAt (getProviderCapabilities EODHD) (capabilityOf (GetQuote '' ''))
   \<and> invoke (GetQuote '' '') (construct tick networkUp EODHD ''ek'') 4 =
       (Returned \<lparr>data = JSEmptyObject, provider = ''EODHD'', timestamp = 4, success = False,
                  error = Some ''Failed to fetch quote: Error: Symbol is required''\<rparr>, 4)
   \<and> providers (setProviderPriority [EODHD, EODHD, Polygon] upFactory) =
       providers (newETFProviderFactory tick networkUp twoKeys)
   \<and> providerPriority (setProviderPriority [EODHD, EODHD, Polygon] upFactory) =
       [EODHD, EODHD, Polygon]
   \<and> after (serve tick (GetQuote '' '') (setProviderPriority [EODHD, EODHD, Polygon] upFactory) 4)
       = 4
   \<and> provider (response
         (serve tick (GetQuote '' '') (setProviderPriority [EODHD, EODHD, Polygon] upFactory) 4))
       = ''factory''
   \<and> map fst (calls
         (serve tick (GetQuote '' '') (setProviderPriority [EODHD, EODHD, Polygon] upFactory) 4))
       = [EODHD, EODHD, Polygon]
   \<and> filter (eligible (providers (setProviderPriority [EODHD, EODHD, Polygon] upFactory))
          (healthStatus (setProviderPriority [EODHD, EODHD, Polygon] upFactory)) KeyQuote)
         (providerPriority (setProviderPriority [EODHD, EODHD, Polygon] upFactory))
       = [EODHD, EODHD, Polygon]"
proof -
  let ?f = "setProviderPriority [EODHD, EODHD, Polygon] upFactory"
  have b: "\<forall>c \<in> set '' ''. isWhiteSpace c" by (simp add: isWhiteSpace_def)
  have y: "symbolOf (GetQuote '' '') = Some '' ''" by simp
  note T = blank_symbol_fails_without_network[OF b y, where clock=tick and remote=networkUp
      and nm=EODHD and key="''ek''" and w=4 and f="?f" and creds=twoKeys]
  have c: "capabilityAt (getProviderCapabilities EODHD) (capabilityOf (GetQuote '' ''))" by simp
  have i: "invoke (GetQuote '' '') (construct tick networkUp EODHD ''ek'') 4 =
       (Returned \<lparr>data = JSEmptyObject, provider = ''EODHD'', timestamp = 4, success = False,
                  error = Some ''Failed to fetch quote: Error: Symbol is required''\<rparr>, 4)"
    by code_simp
  have p: "providers ?f = providers (newETFProviderFactory tick networkUp twoKeys)"
    by (simp add: upFactory_def setProviderPriority_def)
  have q: "providerPriority ?f = [EODHD, EODHD, Polygon]" by code_simp
  have l: "map fst (calls (serve tick (GetQuote '' '') ?f 4)) = [EODHD, EODHD, Polygon]"
    by code_simp
  from T have v: "validateSymbol '' '' = Some ''Error: Symbol is required''" by blast
  from T p have a: "after (serve tick (GetQuote '' '') ?f 4) = 4
      \<and> provider (response (serve tick (GetQuote '' '') ?f 4)) = ''factory''
      \<and> map fst (calls (serve tick (GetQuote '' '') ?f 4)) =
       filter (eligible (providers ?f) (healthStatus ?f)
          (capabilityOf (GetQuote '' ''))) (providerPriority ?f)"
    by blast
  with l have e: "filter (eligible (providers ?f) (healthStatus ?f) KeyQuote)
      (providerPriority ?f) = [EODHD, EODHD, Polygon]" by simp
  from b have b': "list_all isWhiteSpace '' ''" by (simp add: list_all_iff)
  from b' y v c i p q a l e show ?thesis by simp
qed

text \<open>
  C7 as stated fails for the factory: asked for the quote of a blank symbol, it does
  not return at once. It goes through the priority list and calls both registered
  providers, and what comes back is the aggregated failure made of their messages.
\<close>

theorem factory_calls_providers_on_blank_symbol:
  "validateSymbol '' '' = Some ''Error: Symbol is required''
   \<and> providerPriority upFactory = [Polygon, EODHD]
   \<and> map fst (calls (serve tick (GetQuote '' '') upFactory 0)) = [Polygon, EODHD]
   \<and> response (serve tick (GetQuote '' '') upFactory 0) =
       \<lparr>data = JSNull, provider = ''factory'', timestamp = 0, success = False,
        error = Some (''All providers failed. Errors: '' @
          ''polygon: Failed to fetch quote: Error: Symbol is required'' @ ''; '' @
          ''eodhd: Failed to fetch quote: Error: Symbol is required'')\<rparr>"
  by code_simp

end
